theory Spec2Isabelle
  imports Main
begin

section \<open>The document object model the library runs on\<close>

text \<open>
  DomMover (\<^verbatim>\<open>src/dom-mover.js\<close>) is a class whose methods read and mutate the
  browser's DOM. The DOM is modelled as an explicit store: a node is named by an
  identifier, a JavaScript reference that may be \<^verbatim>\<open>null\<close> is a \<open>nid option\<close>, and
  every node carries the fields the library reads. The document also keeps a log of its
  mutations: one entry \<open>Inserted parent node child\<close> for every
  \<^verbatim>\<open>parent.insertBefore(node, child)\<close> that did not throw (\<^verbatim>\<open>appendChild\<close> is
  \<^verbatim>\<open>insertBefore\<close> with \<^verbatim>\<open>null\<close>), and one entry \<open>Removed parent child\<close> for every
  \<^verbatim>\<open>parent.removeChild(child)\<close> that did not throw. An insertion that puts a node back
  where it was leaves the tree as it is and is one more entry of the log, as it is one
  more mutation for the browser.
\<close>

type_synonym nid = nat

datatype nodeType = ElementNode | TextNode | DocumentNode

datatype mutation = Inserted nid nid "nid option" | Removed nid nid

record node =
  nodeType :: nodeType
  tagName :: string
  classList :: "string list"
  attributes :: "(string \<times> string) list"
  dataset :: "(string \<times> string) list"
  parentNode :: "nid option"
  childNodes :: "nid list"

record document =
  nodes :: "nid \<Rightarrow> node"
  root :: nid
  body :: nid
  fresh :: nid
  mutations :: "mutation list"

text \<open>The exceptions the platform raises on the paths the library takes.\<close>

datatype error =
  TypeError | SyntaxError | HierarchyRequestError | NotFoundError | InvalidCharacterError

definition isElement :: "document \<Rightarrow> nid \<Rightarrow> bool" where
  "isElement d n = (nodeType (nodes d n) = ElementNode)"

definition parentOf :: "document \<Rightarrow> nid \<Rightarrow> nid option" where
  "parentOf d n = parentNode (nodes d n)"

definition siblings :: "document \<Rightarrow> nid \<Rightarrow> nid list" where
  "siblings d n = (case parentOf d n of None \<Rightarrow> [] | Some p \<Rightarrow> childNodes (nodes d p))"

definition siblingsAfter :: "document \<Rightarrow> nid \<Rightarrow> nid list" where
  "siblingsAfter d n = tl (dropWhile (\<lambda>x. x \<noteq> n) (siblings d n))"

definition siblingsBefore :: "document \<Rightarrow> nid \<Rightarrow> nid list" where
  "siblingsBefore d n = rev (takeWhile (\<lambda>x. x \<noteq> n) (siblings d n))"

definition nextSibling :: "document \<Rightarrow> nid \<Rightarrow> nid option" where
  "nextSibling d n = (case siblingsAfter d n of [] \<Rightarrow> None | x # _ \<Rightarrow> Some x)"

definition nextElementSibling :: "document \<Rightarrow> nid \<Rightarrow> nid option" where
  "nextElementSibling d n = find (isElement d) (siblingsAfter d n)"

definition previousElementSibling :: "document \<Rightarrow> nid \<Rightarrow> nid option" where
  "previousElementSibling d n = find (isElement d) (siblingsBefore d n)"

text \<open>
  \<^verbatim>\<open>a.contains(x)\<close>: whether \<open>x\<close> is \<open>a\<close> or a descendant of it, found by walking up
  from \<open>x\<close>. The walk ends on every tree; on a store whose parent links form a cycle
  it does not, and the result is \<open>None\<close>.
\<close>

partial_function (option) containsFrom :: "document \<Rightarrow> nid \<Rightarrow> nid option \<Rightarrow> bool option" where
  "containsFrom d a x =
     (case x of
        None \<Rightarrow> Some False
      | Some n \<Rightarrow> if n = a then Some True else containsFrom d a (parentOf d n))"

definition contains :: "document \<Rightarrow> nid \<Rightarrow> nid \<Rightarrow> bool option" where
  "contains d a x = containsFrom d a (Some x)"


subsection \<open>Mutation: \<^verbatim>\<open>insertBefore\<close>, \<^verbatim>\<open>removeChild\<close>, \<^verbatim>\<open>createElement\<close>\<close>

definition setChildren :: "document \<Rightarrow> nid \<Rightarrow> nid list \<Rightarrow> document" where
  "setChildren d p cs = d\<lparr>nodes := (nodes d)(p := (nodes d p)\<lparr>childNodes := cs\<rparr>)\<rparr>"

definition setParent :: "document \<Rightarrow> nid \<Rightarrow> nid option \<Rightarrow> document" where
  "setParent d n p = d\<lparr>nodes := (nodes d)(n := (nodes d n)\<lparr>parentNode := p\<rparr>)\<rparr>"

text \<open>Taking a node out of its parent's child list (the DOM's ``remove'' algorithm).\<close>

definition detach :: "document \<Rightarrow> nid \<Rightarrow> document" where
  "detach d n =
     (case parentOf d n of
        None \<Rightarrow> d
      | Some p \<Rightarrow> setParent (setChildren d p (removeAll n (childNodes (nodes d p)))) n None)"

fun insertAt :: "nid \<Rightarrow> nid option \<Rightarrow> nid list \<Rightarrow> nid list" where
  "insertAt n None cs = cs @ [n]"
| "insertAt n (Some r) [] = [n]"
| "insertAt n (Some r) (c # cs) = (if c = r then n # c # cs else c # insertAt n (Some r) cs)"

text \<open>
  \<^verbatim>\<open>parent.insertBefore(node, child)\<close>, with the checks of the DOM's pre-insertion
  validity that a call of the library can meet: the node argument must be a node, the
  parent an element or the document, the node may not contain the parent, the reference
  child must be a child of the parent, and a document holds one element at most.
\<close>

definition insertBefore ::
  "document \<Rightarrow> nid \<Rightarrow> nid option \<Rightarrow> nid option \<Rightarrow> (error + document) option" where
  "insertBefore d parent node child =
     (case node of
        None \<Rightarrow> Some (Inl TypeError)
      | Some n \<Rightarrow>
          if nodeType (nodes d parent) = TextNode then Some (Inl HierarchyRequestError)
          else
            (case contains d n parent of
               None \<Rightarrow> None
             | Some True \<Rightarrow> Some (Inl HierarchyRequestError)
             | Some False \<Rightarrow>
                 if (case child of None \<Rightarrow> False | Some c \<Rightarrow> parentOf d c \<noteq> Some parent)
                 then Some (Inl NotFoundError)
                 else if nodeType (nodes d n) = DocumentNode then Some (Inl HierarchyRequestError)
                 else if nodeType (nodes d parent) = DocumentNode \<and>
                         (nodeType (nodes d n) = TextNode \<or>
                          list_ex (isElement d) (childNodes (nodes d parent)))
                 then Some (Inl HierarchyRequestError)
                 else
                   (let ref = (if child = Some n then nextSibling d n else child);
                        d1 = detach d n;
                        d2 = setChildren d1 parent (insertAt n ref (childNodes (nodes d1 parent)))
                    in Some (Inr ((setParent d2 n (Some parent))
                                    \<lparr>mutations := mutations d @ [Inserted parent n child]\<rparr>)))))"

text \<open>\<^verbatim>\<open>parent.removeChild(child)\<close>.\<close>

definition removeChild :: "document \<Rightarrow> nid \<Rightarrow> nid \<Rightarrow> error + document" where
  "removeChild d parent child =
     (if parentOf d child \<noteq> Some parent then Inl NotFoundError
      else Inr ((detach d child)\<lparr>mutations := mutations d @ [Removed parent child]\<rparr>))"

text \<open>
  \<^verbatim>\<open>document.createElement(tag)\<close> and a text node: a detached node under the next unused
  identifier. In an HTML document \<^verbatim>\<open>tagName\<close> reads in upper case.
\<close>

definition upperChar :: "char \<Rightarrow> char" where
  "upperChar c =
     (case List.find (\<lambda>(l, u). l = c) (zip ''abcdefghijklmnopqrstuvwxyz'' ''ABCDEFGHIJKLMNOPQRSTUVWXYZ'') of
        None \<Rightarrow> c
      | Some (l, u) \<Rightarrow> u)"

definition toUpperCase :: "string \<Rightarrow> string" where
  "toUpperCase s = map upperChar s"

definition blankNode :: "nodeType \<Rightarrow> string \<Rightarrow> node" where
  "blankNode k t =
     \<lparr>nodeType = k, tagName = t, classList = [], attributes = [], dataset = [],
      parentNode = None, childNodes = []\<rparr>"

definition allocate :: "document \<Rightarrow> node \<Rightarrow> nid \<times> document" where
  "allocate d nd = (fresh d, d\<lparr>nodes := (nodes d)(fresh d := nd), fresh := Suc (fresh d)\<rparr>)"

definition createElement :: "document \<Rightarrow> string \<Rightarrow> nid \<times> document" where
  "createElement d t = allocate d (blankNode ElementNode (toUpperCase t))"

definition createTextNode :: "document \<Rightarrow> nid \<times> document" where
  "createTextNode d = allocate d (blankNode TextNode [])"

definition setAttribute :: "document \<Rightarrow> nid \<Rightarrow> string \<Rightarrow> string \<Rightarrow> document" where
  "setAttribute d n k v =
     d\<lparr>nodes := (nodes d)(n := (nodes d n)
         \<lparr>attributes := filter (\<lambda>kv. fst kv \<noteq> k) (attributes (nodes d n)) @ [(k, v)]\<rparr>)\<rparr>"

subsection \<open>\<^verbatim>\<open>classList\<close>\<close>

text \<open>
  \<^verbatim>\<open>classList.add\<close> and \<^verbatim>\<open>classList.remove\<close> refuse the empty token (SyntaxError) and a
  token with white space in it (InvalidCharacterError); only elements have a
  \<^verbatim>\<open>classList\<close>, and reading it off \<^verbatim>\<open>null\<close> or off a text node is a TypeError.
\<close>

definition isAsciiWhitespace :: "char \<Rightarrow> bool" where
  "isAsciiWhitespace c = (c \<in> set [CHR '' '', CHR 0x09, CHR 0x0A, CHR 0x0C, CHR 0x0D])"

definition tokenError :: "string \<Rightarrow> error option" where
  "tokenError t =
     (if t = [] then Some SyntaxError
      else if list_ex isAsciiWhitespace t then Some InvalidCharacterError
      else None)"

definition setClassList :: "document \<Rightarrow> nid \<Rightarrow> string list \<Rightarrow> document" where
  "setClassList d n cl = d\<lparr>nodes := (nodes d)(n := (nodes d n)\<lparr>classList := cl\<rparr>)\<rparr>"

definition classListOf :: "document \<Rightarrow> nid option \<Rightarrow> error + string list" where
  "classListOf d el =
     (case el of
        None \<Rightarrow> Inl TypeError
      | Some n \<Rightarrow> if isElement d n then Inr (classList (nodes d n)) else Inl TypeError)"

definition classListContains :: "document \<Rightarrow> nid option \<Rightarrow> string \<Rightarrow> error + bool" where
  "classListContains d el t =
     (case classListOf d el of Inl e \<Rightarrow> Inl e | Inr cl \<Rightarrow> Inr (t \<in> set cl))"

definition classListAdd :: "document \<Rightarrow> nid option \<Rightarrow> string \<Rightarrow> error + document" where
  "classListAdd d el t =
     (case el of
        None \<Rightarrow> Inl TypeError
      | Some n \<Rightarrow>
          if \<not> isElement d n then Inl TypeError
          else
            (case tokenError t of
               Some e \<Rightarrow> Inl e
             | None \<Rightarrow>
                 Inr (if t \<in> set (classList (nodes d n)) then d
                      else setClassList d n (classList (nodes d n) @ [t]))))"

definition classListRemove :: "document \<Rightarrow> nid option \<Rightarrow> string \<Rightarrow> error + document" where
  "classListRemove d el t =
     (case el of
        None \<Rightarrow> Inl TypeError
      | Some n \<Rightarrow>
          if \<not> isElement d n then Inl TypeError
          else
            (case tokenError t of
               Some e \<Rightarrow> Inl e
             | None \<Rightarrow>
                 Inr (if t \<in> set (classList (nodes d n))
                      then setClassList d n (removeAll t (classList (nodes d n)))
                      else d)))"

subsection \<open>Selectors\<close>

text \<open>
  The platform's selector engine is a parameter of the model: it maps the text of a
  selector to \<open>None\<close> when the text is not a selector (the call throws a SyntaxError),
  and otherwise to the test whether an element matches. The test may walk up the tree,
  hence its \<open>option\<close>.
\<close>

type_synonym engine = "string \<Rightarrow> (document \<Rightarrow> nid \<Rightarrow> bool option) option"

text \<open>\<^verbatim>\<open>element.matches(sel)\<close>; a text node or the document has no such method.\<close>

definition matchesSel :: "engine \<Rightarrow> document \<Rightarrow> nid \<Rightarrow> string \<Rightarrow> (error + bool) option" where
  "matchesSel E d n sel =
     (if \<not> isElement d n then Some (Inl TypeError)
      else
        (case E sel of
           None \<Rightarrow> Some (Inl SyntaxError)
         | Some test \<Rightarrow> (case test d n of None \<Rightarrow> None | Some b \<Rightarrow> Some (Inr b))))"

text \<open>\<^verbatim>\<open>element.closest(sel)\<close>: the nearest inclusive ancestor that is an element and matches.\<close>

partial_function (option) closestFrom ::
  "(document \<Rightarrow> nid \<Rightarrow> bool option) \<Rightarrow> document \<Rightarrow> nid option \<Rightarrow> nid option option" where
  "closestFrom test d current =
     (case current of
        None \<Rightarrow> Some None
      | Some n \<Rightarrow>
          if isElement d n then
            (case test d n of
               None \<Rightarrow> None
             | Some b \<Rightarrow> if b then Some (Some n) else closestFrom test d (parentOf d n))
          else closestFrom test d (parentOf d n))"

definition closest :: "engine \<Rightarrow> document \<Rightarrow> nid \<Rightarrow> string \<Rightarrow> (error + nid option) option" where
  "closest E d n sel =
     (if \<not> isElement d n then Some (Inl TypeError)
      else
        (case E sel of
           None \<Rightarrow> Some (Inl SyntaxError)
         | Some test \<Rightarrow>
             (case closestFrom test d (Some n) of None \<Rightarrow> None | Some r \<Rightarrow> Some (Inr r))))"

text \<open>
  \<^verbatim>\<open>document.querySelectorAll(sel)\<close> and \<^verbatim>\<open>document.querySelector(sel)\<close>: the matching
  elements in document order, a depth-first walk from the document node kept on a stack.
\<close>

partial_function (option) collectMatches ::
  "(document \<Rightarrow> nid \<Rightarrow> bool option) \<Rightarrow> document \<Rightarrow> nid list \<Rightarrow> nid list \<Rightarrow> nid list option" where
  "collectMatches test d stack acc =
     (case stack of
        [] \<Rightarrow> Some (rev acc)
      | n # rest \<Rightarrow>
          if isElement d n then
            (case test d n of
               None \<Rightarrow> None
             | Some b \<Rightarrow>
                 collectMatches test d (childNodes (nodes d n) @ rest) (if b then n # acc else acc))
          else collectMatches test d (childNodes (nodes d n) @ rest) acc)"

definition querySelectorAll :: "engine \<Rightarrow> document \<Rightarrow> string \<Rightarrow> (error + nid list) option" where
  "querySelectorAll E d sel =
     (case E sel of
        None \<Rightarrow> Some (Inl SyntaxError)
      | Some test \<Rightarrow>
          (case collectMatches test d (childNodes (nodes d (root d))) [] of
             None \<Rightarrow> None
           | Some ms \<Rightarrow> Some (Inr ms)))"

definition querySelector :: "engine \<Rightarrow> document \<Rightarrow> string \<Rightarrow> (error + nid option) option" where
  "querySelector E d sel =
     (case querySelectorAll E d sel of
        None \<Rightarrow> None
      | Some (Inl e) \<Rightarrow> Some (Inl e)
      | Some (Inr ms) \<Rightarrow> Some (Inr (case ms of [] \<Rightarrow> None | m # _ \<Rightarrow> Some m)))"

section \<open>The DomMover instance\<close>

text \<open>
  The fields of a \<^verbatim>\<open>DomMover\<close> object, under their names in the source. The options are
  the object \<^verbatim>\<open>Object.assign({}, DomMover.defaults, options)\<close>, with the nested
  \<^verbatim>\<open>pickup\<close>, \<^verbatim>\<open>drop\<close> and \<^verbatim>\<open>callbacks\<close> objects flattened. A callback option records
  whether \<^verbatim>\<open>typeof callback === 'function'\<close>; \<^verbatim>\<open>beforeDrop\<close>, whose return value the
  library reads, is the function itself. Calls of the user's callbacks are recorded in a
  trace; the callbacks themselves are taken not to touch the DOM or the instance.
\<close>

datatype direction = Up | Down

datatype position = Top | Bottom

datatype jsval = JUndefined | JNull | JBool bool | JNumber int | JString string

type_synonym itemData = "(string \<times> string option) list"

record event =
  target :: nid
  clientY :: int

datatype ctorArg =
  ArgString string | ArgElement nid | ArgNodeList "nid list" | ArgArray "nid list" | ArgOther

datatype scope = Pickup | Drop

record options =
  pickup_parent :: "string option"
  pickup_disabledClass :: string
  pickup_addClass :: string
  pickup_removeClass :: string
  drop_parent :: "string option"
  drop_addClass :: string
  drop_removeClass :: string
  callbacks_pickup :: bool
  callbacks_drag :: bool
  callbacks_drop :: bool
  callbacks_beforeDrop ::
    "(nid \<Rightarrow> nid option \<Rightarrow> itemData option \<Rightarrow> itemData option \<Rightarrow> nid option \<Rightarrow> jsval) option"
  dataAttributes :: "string list"
  dropIndicatorClass :: string
  dropIndicator :: bool
  dragImageClass :: string
  placeholderClass :: string
  debug :: bool
  allowDuplicateCallbacks :: bool

definition defaults :: options where
  "defaults =
     \<lparr>pickup_parent = None, pickup_disabledClass = ''sortable-disabled'',
      pickup_addClass = ''sortable-dragging'', pickup_removeClass = [],
      drop_parent = None, drop_addClass = [], drop_removeClass = [],
      callbacks_pickup = False, callbacks_drag = False, callbacks_drop = False,
      callbacks_beforeDrop = None,
      dataAttributes = [''id'', ''sort''],
      dropIndicatorClass = ''sortable-drop-indicator'', dropIndicator = True,
      dragImageClass = ''sortable-drag-image'', placeholderClass = ''sortable-placeholder'',
      debug = False, allowDuplicateCallbacks = False\<rparr>"

record domMover =
  elements :: "nid list"
  elementOrSelector :: ctorArg
  lastMouseY :: int
  instanceId :: string
  tagNameCopy :: "string option"
  lastDraggedOver :: "nid option"
  lastMouseDirection :: "direction option"
  options :: options
  draggedItem :: "nid option"
  draggedItemData :: "itemData option"
  placeholder :: "nid option"

datatype call =
    PickupCall nid itemData "nid option" "nid option"
  | DragCall event "nid option" nid position
  | BeforeDropCall nid "nid option" "itemData option" "itemData option" "nid option"
  | DropCall nid "nid option" "itemData option" "itemData option" "nid option"

text \<open>
  The state a method runs in: the document, the instance (\<^verbatim>\<open>this\<close>), the trace of
  callback calls, the lines written by \<^verbatim>\<open>console.error\<close>, the node the five listeners
  are bound to (if any), and the drag images waiting for the next animation frame.
\<close>

record state =
  dom :: document
  self :: domMover
  calls :: "call list"
  console :: "string list"
  listenersAt :: "nid option"
  frameQueue :: "nid list"

text \<open>
  A method returns or throws; either way the state it has reached stays. For an event
  handler the flag says whether \<^verbatim>\<open>e.preventDefault()\<close> has been called.
\<close>

datatype 'a attempt = Done 'a | Failed error 'a

datatype outcome = Returned state bool | Thrown error state bool

text \<open>JavaScript's truthiness of a selector option: \<^verbatim>\<open>null\<close> and the empty string are falsy.\<close>

definition truthySelector :: "string option \<Rightarrow> string option" where
  "truthySelector p = (case p of None \<Rightarrow> None | Some sel \<Rightarrow> if sel = [] then None else Some sel)"

text \<open>\<^verbatim>\<open>classes.split(' ')\<close>.\<close>

fun split :: "string \<Rightarrow> string list" where
  "split [] = [[]]"
| "split (c # cs) =
     (if c = CHR '' '' then [] # split cs
      else (case split cs of [] \<Rightarrow> [[c]] | w # ws \<Rightarrow> (c # w) # ws))"

fun addEach :: "document \<Rightarrow> nid option \<Rightarrow> string list \<Rightarrow> document attempt" where
  "addEach d element [] = Done d"
| "addEach d element (cls # rest) =
     (case classListAdd d element cls of
        Inl err \<Rightarrow> Failed err d
      | Inr d' \<Rightarrow> addEach d' element rest)"

fun removeEach :: "document \<Rightarrow> nid option \<Rightarrow> string list \<Rightarrow> document attempt" where
  "removeEach d element [] = Done d"
| "removeEach d element (cls # rest) =
     (case classListRemove d element cls of
        Inl err \<Rightarrow> Failed err d
      | Inr d' \<Rightarrow> removeEach d' element rest)"

definition addClasses :: "document \<Rightarrow> nid option \<Rightarrow> string \<Rightarrow> document attempt" where
  "addClasses d element classes =
     (if classes = [] then Done d else addEach d element (split classes))"

definition removeClasses :: "document \<Rightarrow> nid option \<Rightarrow> string \<Rightarrow> document attempt" where
  "removeClasses d element classes =
     (if classes = [] then Done d else removeEach d element (split classes))"

text \<open>
  \<^verbatim>\<open>getItemData\<close> fills an object, \<^verbatim>\<open>data[attr] = item.dataset[attr]\<close> for each
  configured name: the object is the list of its properties in the order of their first
  assignment, and assigning to a name it has already replaces the value in place. (A name
  that reads as an array index is listed by JavaScript before the others; the list keeps
  it where it was assigned.)
\<close>

definition assign :: "itemData \<Rightarrow> string \<Rightarrow> string option \<Rightarrow> itemData" where
  "assign data attr v =
     (if map_of data attr = None then data @ [(attr, v)]
      else map (\<lambda>kv. if fst kv = attr then (attr, v) else kv) data)"

definition getItemData :: "document \<Rightarrow> options \<Rightarrow> nid \<Rightarrow> itemData" where
  "getItemData d opts item =
     foldl (\<lambda>data attr. assign data attr (map_of (dataset (nodes d item)) attr)) []
       (dataAttributes opts)"

definition invalidTags :: "string list" where
  "invalidTags =
     [''TBODY'', ''THEAD'', ''TFOOT'', ''CAPTION'', ''COLGROUP'', ''COL'', ''HTML'', ''HEAD'', ''BODY'']"

definition isValidSortableElement :: "string \<Rightarrow> bool" where
  "isValidSortableElement tagName' = (\<not> List.member invalidTags tagName')"

subsection \<open>Membership: \<^verbatim>\<open>isWithinParent\<close>, \<^verbatim>\<open>isDraggable\<close>, \<^verbatim>\<open>getParentElement\<close>\<close>

definition isWithinParent ::
  "engine \<Rightarrow> document \<Rightarrow> domMover \<Rightarrow> nid \<Rightarrow> scope \<Rightarrow> (error + bool) option" where
  "isWithinParent E d this element type =
     (case truthySelector
             (if type = Pickup then pickup_parent (options this) else drop_parent (options this)) of
        None \<Rightarrow> Some (Inr True)
      | Some parentSelector \<Rightarrow>
          (case querySelector E d parentSelector of
             None \<Rightarrow> None
           | Some (Inl err) \<Rightarrow> Some (Inl err)
           | Some (Inr None) \<Rightarrow> Some (Inr True)
           | Some (Inr (Some parentElement)) \<Rightarrow>
               (case contains d parentElement element of
                  None \<Rightarrow> None
                | Some inside \<Rightarrow>
                    if \<not> inside then Some (Inr False)
                    else Some (classListContains d (Some element) (instanceId this)))))"

text \<open>
  The loop of \<^verbatim>\<open>isDraggable\<close>. Its result is \<open>False\<close> where the source returns
  \<^verbatim>\<open>false\<close> from inside the loop, and \<open>True\<close> where the loop ends or breaks; the two
  options it reads are \<^verbatim>\<open>pickup.disabledClass\<close> and \<^verbatim>\<open>pickup.parent\<close>.
\<close>

partial_function (option) notDisabledFrom ::
  "engine \<Rightarrow> document \<Rightarrow> string \<Rightarrow> string option \<Rightarrow> nid option \<Rightarrow> (error + bool) option" where
  "notDisabledFrom E d disabledClass parent current =
     (case current of
        None \<Rightarrow> Some (Inr True)
      | Some c \<Rightarrow>
          if isElement d c \<and> disabledClass \<in> set (classList (nodes d c))
          then Some (Inr False)
          else
            (case truthySelector parent of
               None \<Rightarrow>
                 if c = body d then Some (Inr True)
                 else notDisabledFrom E d disabledClass parent (parentOf d c)
             | Some parentSelector \<Rightarrow>
                 (case matchesSel E d c parentSelector of
                    None \<Rightarrow> None
                  | Some r \<Rightarrow>
                      (case r of
                         Inl err \<Rightarrow> Some (Inl err)
                       | Inr m \<Rightarrow>
                           if m then Some (Inr True)
                           else if c = body d then Some (Inr True)
                           else notDisabledFrom E d disabledClass parent (parentOf d c)))))"

definition isDraggable :: "engine \<Rightarrow> document \<Rightarrow> domMover \<Rightarrow> nid \<Rightarrow> (error + bool) option" where
  "isDraggable E d this element =
     (case notDisabledFrom E d (pickup_disabledClass (options this)) (pickup_parent (options this))
             (Some element) of
        None \<Rightarrow> None
      | Some (Inl err) \<Rightarrow> Some (Inl err)
      | Some (Inr ok) \<Rightarrow>
          if \<not> ok then Some (Inr False) else isWithinParent E d this element Pickup)"

text \<open>The inner \<^verbatim>\<open>for\<close> loop of \<^verbatim>\<open>getParentElement\<close>, and its outer \<^verbatim>\<open>while\<close> loop.\<close>

fun allChildren :: "document \<Rightarrow> string \<Rightarrow> nid \<Rightarrow> nid list \<Rightarrow> (error + bool) option" where
  "allChildren d iid commonParent [] = Some (Inr True)"
| "allChildren d iid commonParent (el # rest) =
     (case contains d commonParent el of
        None \<Rightarrow> None
      | Some inside \<Rightarrow>
          if \<not> inside then Some (Inr False)
          else
            (case classListContains d (Some el) iid of
               Inl err \<Rightarrow> Some (Inl err)
             | Inr tagged \<Rightarrow>
                 if \<not> tagged then Some (Inr False) else allChildren d iid commonParent rest))"

partial_function (option) commonParentFrom ::
  "document \<Rightarrow> string \<Rightarrow> nid option \<Rightarrow> nid list \<Rightarrow> (error + nid option) option" where
  "commonParentFrom d iid commonParent els =
     (case commonParent of
        None \<Rightarrow> Some (Inr None)
      | Some c \<Rightarrow>
          (case allChildren d iid c els of
             None \<Rightarrow> None
           | Some r \<Rightarrow>
               (case r of
                  Inl err \<Rightarrow> Some (Inl err)
                | Inr ok \<Rightarrow>
                    if ok then Some (Inr (Some c))
                    else commonParentFrom d iid (parentOf d c) els)))"

definition getParentElement ::
  "engine \<Rightarrow> document \<Rightarrow> domMover \<Rightarrow> scope \<Rightarrow> (error + nid option) option" where
  "getParentElement E d this type =
     (case truthySelector
             (if type = Pickup then pickup_parent (options this) else drop_parent (options this)) of
        Some parentSelector \<Rightarrow> querySelector E d parentSelector
      | None \<Rightarrow>
          (case elements this of
             [] \<Rightarrow> Some (Inr None)
           | first # _ \<Rightarrow>
               commonParentFrom d (instanceId this) (parentOf d first) (elements this)))"

subsection \<open>Construction: \<^verbatim>\<open>constructor\<close>, \<^verbatim>\<open>init\<close>, \<^verbatim>\<open>bindEvents\<close>\<close>

definition bindEvents :: "engine \<Rightarrow> state \<Rightarrow> state attempt option" where
  "bindEvents E s =
     (case getParentElement E (dom s) (self s) Pickup of
        None \<Rightarrow> None
      | Some (Inl err) \<Rightarrow> Some (Failed err s)
      | Some (Inr None) \<Rightarrow> Some (Done s)
      | Some (Inr (Some parentElement)) \<Rightarrow> Some (Done (s\<lparr>listenersAt := Some parentElement\<rparr>)))"

fun tagEach :: "document \<Rightarrow> string \<Rightarrow> nid list \<Rightarrow> document attempt" where
  "tagEach d iid [] = Done d"
| "tagEach d iid (element # rest) =
     (if \<not> isElement d element then Failed TypeError d
      else
        (case classListAdd (setAttribute d element ''draggable'' ''true'') (Some element) iid of
           Inl err \<Rightarrow> Failed err (setAttribute d element ''draggable'' ''true'')
         | Inr d' \<Rightarrow> tagEach d' iid rest))"

definition init :: "engine \<Rightarrow> state \<Rightarrow> state attempt option" where
  "init E s =
     (case bindEvents E s of
        None \<Rightarrow> None
      | Some (Failed err s1) \<Rightarrow> Some (Failed err s1)
      | Some (Done s1) \<Rightarrow>
          (case tagEach (dom s1) (instanceId (self s1)) (elements (self s1)) of
             Failed err d \<Rightarrow> Some (Failed err (s1\<lparr>dom := d\<rparr>))
           | Done d \<Rightarrow> Some (Done (s1\<lparr>dom := d\<rparr>))))"

text \<open>
  \<^verbatim>\<open>new DomMover(elementOrSelector, options)\<close> on a page \<open>d\<close>. The random instance
  identifier is an argument, and \<open>opts\<close> is the merged options object.
\<close>

definition newInstance :: "ctorArg \<Rightarrow> options \<Rightarrow> string \<Rightarrow> nid list \<Rightarrow> domMover" where
  "newInstance arg opts iid els =
     \<lparr>elements = els, elementOrSelector = arg, lastMouseY = 0, instanceId = iid,
      tagNameCopy = None, lastDraggedOver = None, lastMouseDirection = None,
      options = opts, draggedItem = None, draggedItemData = None, placeholder = None\<rparr>"

definition newState :: "document \<Rightarrow> domMover \<Rightarrow> state" where
  "newState d this =
     \<lparr>dom = d, self = this, calls = [], console = [], listenersAt = None, frameQueue = []\<rparr>"

definition constructor ::
  "engine \<Rightarrow> document \<Rightarrow> ctorArg \<Rightarrow> options \<Rightarrow> string \<Rightarrow> state attempt option" where
  "constructor E d arg opts iid =
     (case arg of
        ArgString sel \<Rightarrow>
          (case querySelectorAll E d sel of
             None \<Rightarrow> None
           | Some (Inl err) \<Rightarrow> Some (Failed err (newState d (newInstance arg opts iid [])))
           | Some (Inr els) \<Rightarrow> init E (newState d (newInstance arg opts iid els)))
      | ArgElement el \<Rightarrow> init E (newState d (newInstance arg opts iid [el]))
      | ArgNodeList els \<Rightarrow> init E (newState d (newInstance arg opts iid els))
      | ArgArray els \<Rightarrow> init E (newState d (newInstance arg opts iid els))
      | ArgOther \<Rightarrow>
          Some (Done ((newState d (newInstance arg opts iid []))
                 \<lparr>console := [''DomMover: Invalid element or selector provided.'']\<rparr>)))"

section \<open>The drag-reorder handlers\<close>

subsection \<open>Pickup: \<^verbatim>\<open>handleDragStart\<close>, \<^verbatim>\<open>createPlaceholder\<close>, \<^verbatim>\<open>setCustomDragImage\<close>\<close>

definition appendChild :: "document \<Rightarrow> nid \<Rightarrow> nid \<Rightarrow> (error + document) option" where
  "appendChild d parent n = insertBefore d parent (Some n) None"

text \<open>\<^verbatim>\<open>colCount.toString()\<close>: a natural number in decimal.\<close>

definition digitChar :: "nat \<Rightarrow> char" where
  "digitChar n = ''0123456789'' ! (n mod 10)"

function showNat :: "nat \<Rightarrow> string" where
  "showNat n = (if n < 10 then [digitChar n] else showNat (n div 10) @ [digitChar n])"
  by pat_completeness auto
termination
  by (relation "measure id") auto

text \<open>
  The branch of \<^verbatim>\<open>createPlaceholder\<close> for a table row: one cell spanning the dragged
  row's columns, holding one text node (\<^verbatim>\<open>td.innerHTML = ' '\<close>, in the log the
  insertion of that node).
\<close>

definition buildCell :: "document \<Rightarrow> nid \<Rightarrow> nid option \<Rightarrow> document attempt option" where
  "buildCell d ph dragged =
     (case createElement d ''td'' of
        (td, d1) \<Rightarrow>
          (case dragged of
             None \<Rightarrow> Some (Failed TypeError d1)
           | Some item \<Rightarrow>
               (let n = length (filter (isElement d1) (childNodes (nodes d1 item)));
                    colCount = (if n = 0 then 1 else n);
                    d2 = setAttribute d1 td ''colspan'' (showNat colCount)
                in case createTextNode d2 of
                     (tx, d3) \<Rightarrow>
                       (case appendChild d3 td tx of
                          None \<Rightarrow> None
                        | Some (Inl err) \<Rightarrow> Some (Failed err d3)
                        | Some (Inr d4) \<Rightarrow>
                            (case appendChild d4 ph td of
                               None \<Rightarrow> None
                             | Some (Inl err) \<Rightarrow> Some (Failed err d4)
                             | Some (Inr d5) \<Rightarrow> Some (Done d5))))))"

definition createPlaceholder :: "state \<Rightarrow> state attempt option" where
  "createPlaceholder s =
     (let this = self s;
          tag = (case tagNameCopy this of None \<Rightarrow> ''NULL'' | Some t \<Rightarrow> t)
      in case createElement (dom s) tag of
           (ph, d0) \<Rightarrow>
             (let s0 = s\<lparr>self := this\<lparr>placeholder := Some ph\<rparr>\<rparr> in
              case (if tag = ''TR'' then buildCell d0 ph (draggedItem this) else Some (Done d0)) of
                None \<Rightarrow> None
              | Some (Failed err d1) \<Rightarrow> Some (Failed err (s0\<lparr>dom := d1\<rparr>))
              | Some (Done d1) \<Rightarrow>
                  (case addEach d1 (Some ph)
                          ([placeholderClass (options this), instanceId this] @
                           (if dropIndicator (options this)
                            then [dropIndicatorClass (options this)] else [])) of
                     Failed err d2 \<Rightarrow> Some (Failed err (s0\<lparr>dom := d2\<rparr>))
                   | Done d2 \<Rightarrow> Some (Done (s0\<lparr>dom := d2\<rparr>)))))"

text \<open>
  \<^verbatim>\<open>node.cloneNode(true)\<close>: a detached copy of the node, then of its descendants in
  document order, each appended to the copy of its parent.
\<close>

partial_function (option) cloneInto :: "document \<Rightarrow> (nid \<times> nid) list \<Rightarrow> document option" where
  "cloneInto d work =
     (case work of
        [] \<Rightarrow> Some d
      | (src, dst) # rest \<Rightarrow>
          (case allocate d ((nodes d src)\<lparr>parentNode := Some dst, childNodes := []\<rparr>) of
             (c, d1) \<Rightarrow>
               cloneInto (setChildren d1 dst (childNodes (nodes d1 dst) @ [c]))
                 (map (\<lambda>k. (k, c)) (childNodes (nodes d src)) @ rest)))"

definition cloneNode :: "document \<Rightarrow> nid \<Rightarrow> (nid \<times> document) option" where
  "cloneNode d n =
     (case allocate d ((nodes d n)\<lparr>parentNode := None, childNodes := []\<rparr>) of
        (c, d1) \<Rightarrow>
          (case cloneInto d1 (map (\<lambda>k. (k, c)) (childNodes (nodes d n))) of
             None \<Rightarrow> None
           | Some d2 \<Rightarrow> Some (c, d2)))"

text \<open>
  \<^verbatim>\<open>setCustomDragImage\<close>: the clone is decorated, appended to the body and queued for
  removal at the next animation frame. Its inline size and the call of
  \<^verbatim>\<open>dataTransfer.setDragImage\<close> leave no trace in the store.
\<close>

definition setCustomDragImage :: "state \<Rightarrow> state attempt option" where
  "setCustomDragImage s =
     (case draggedItem (self s) of
        None \<Rightarrow> Some (Failed TypeError s)
      | Some item \<Rightarrow>
          (case cloneNode (dom s) item of
             None \<Rightarrow> None
           | Some (dragImage, d1) \<Rightarrow>
               (case addEach d1 (Some dragImage)
                       [dragImageClass (options (self s)), instanceId (self s)] of
                  Failed err d2 \<Rightarrow> Some (Failed err (s\<lparr>dom := d2\<rparr>))
                | Done d2 \<Rightarrow>
                    (case appendChild d2 (body d2) dragImage of
                       None \<Rightarrow> None
                     | Some (Inl err) \<Rightarrow> Some (Failed err (s\<lparr>dom := d2\<rparr>))
                     | Some (Inr d3) \<Rightarrow>
                         Some (Done (s\<lparr>dom := d3, frameQueue := frameQueue s @ [dragImage]\<rparr>))))))"

text \<open>The callbacks queued by \<^verbatim>\<open>requestAnimationFrame\<close>: each removes its drag image.\<close>

definition animationFrame :: "state \<Rightarrow> state" where
  "animationFrame s =
     s\<lparr>dom := foldl (\<lambda>d img. case removeChild d (body d) img of Inl err \<Rightarrow> d | Inr d' \<Rightarrow> d')
                 (dom s) (frameQueue s),
       frameQueue := []\<rparr>"

definition cannotBeSorted :: "string \<Rightarrow> string" where
  "cannotBeSorted tag = ''DomMover: '' @ [CHR 0x22] @ tag @ [CHR 0x22] @ '' elements cannot be sorted.''"

text \<open>
  What \<^verbatim>\<open>handleDragStart\<close> does once the element has passed both checks, from
  \<^verbatim>\<open>this.draggedItemData = ...\<close> on.
\<close>

definition pickUp :: "state \<Rightarrow> nid \<Rightarrow> outcome option" where
  "pickUp s item =
     (let this = self s;
          itemData = getItemData (dom s) (options this) item;
          s1 = s\<lparr>self := this\<lparr>draggedItemData := Some itemData\<rparr>\<rparr>
      in case addClasses (dom s1) (Some item) (pickup_addClass (options this)) of
           Failed err d1 \<Rightarrow> Some (Thrown err (s1\<lparr>dom := d1\<rparr>) False)
         | Done d1 \<Rightarrow>
             (case removeClasses d1 (Some item) (pickup_removeClass (options this)) of
                Failed err d2 \<Rightarrow> Some (Thrown err (s1\<lparr>dom := d2\<rparr>) False)
              | Done d2 \<Rightarrow>
                  (let prevElem = previousElementSibling d2 item;
                       nextElem = nextElementSibling d2 item;
                       s2 = s1\<lparr>dom := d2,
                              calls := calls s1 @
                                (if callbacks_pickup (options this)
                                 then [PickupCall item itemData prevElem nextElem] else [])\<rparr>
                   in case createPlaceholder s2 of
                        None \<Rightarrow> None
                      | Some (Failed err s3) \<Rightarrow> Some (Thrown err s3 False)
                      | Some (Done s3) \<Rightarrow>
                          (case setCustomDragImage s3 of
                             None \<Rightarrow> None
                           | Some (Failed err s4) \<Rightarrow> Some (Thrown err s4 False)
                           | Some (Done s4) \<Rightarrow> Some (Returned s4 False)))))"

definition handleDragStart :: "engine \<Rightarrow> state \<Rightarrow> event \<Rightarrow> outcome option" where
  "handleDragStart E s e =
     (case isDraggable E (dom s) (self s) (target e) of
        None \<Rightarrow> None
      | Some (Inl err) \<Rightarrow> Some (Thrown err s False)
      | Some (Inr ok) \<Rightarrow>
          if \<not> ok then Some (Returned s False)
          else
            (let s1 = s\<lparr>self := (self s)\<lparr>draggedItem := Some (target e)\<rparr>\<rparr> in
             if \<not> isElement (dom s) (target e) then Some (Thrown TypeError s1 False)
             else
               (let tag = toUpperCase (tagName (nodes (dom s) (target e)));
                    s2 = s1\<lparr>self := (self s1)\<lparr>tagNameCopy := Some tag\<rparr>\<rparr>
                in if \<not> isValidSortableElement tag
                   then Some (Returned (s2\<lparr>console := console s2 @ [cannotBeSorted tag]\<rparr>) True)
                   else pickUp s2 (target e))))"

subsection \<open>Drag end: \<^verbatim>\<open>handleDragEnd\<close>\<close>

definition handleDragEnd :: "state \<Rightarrow> event \<Rightarrow> outcome" where
  "handleDragEnd s e =
     (case removeClasses (dom s) (draggedItem (self s)) (pickup_addClass (options (self s))) of
        Failed err d1 \<Rightarrow> Thrown err (s\<lparr>dom := d1\<rparr>) False
      | Done d1 \<Rightarrow>
          (case (case placeholder (self s) of
                   None \<Rightarrow> Inr d1
                 | Some ph \<Rightarrow>
                     (case parentOf d1 ph of
                        None \<Rightarrow> Inr d1
                      | Some p \<Rightarrow> removeChild d1 p ph)) of
             Inl err \<Rightarrow> Thrown err (s\<lparr>dom := d1\<rparr>) False
           | Inr d2 \<Rightarrow>
               Returned
                 (s\<lparr>dom := d2,
                    self := (self s)\<lparr>draggedItem := None, draggedItemData := None,
                              placeholder := None, tagNameCopy := None,
                              lastDraggedOver := None, lastMouseDirection := None\<rparr>\<rparr>)
                 False))"

subsection \<open>Continuous positioning: \<^verbatim>\<open>handleDragOver\<close>, \<^verbatim>\<open>handleDragEnter\<close>\<close>

text \<open>
  The selector both handlers hand to \<^verbatim>\<open>closest\<close> is the template literal
  \<^verbatim>\<open>`${this.elementOrSelector}.${this.instanceId}`\<close>: the constructor's argument
  converted to a string. An element converts to \<^verbatim>\<open>[object HTML...Element]\<close> after its
  interface (an anchor or an area to its \<^verbatim>\<open>href\<close>, which the store holds resolved, and
  to the empty string when it has none), a node list to \<^verbatim>\<open>[object NodeList]\<close>, an array to its members' strings joined by commas.
\<close>

text \<open>
  The interface of an HTML element by its tag, \<^verbatim>\<open>HTML\<close> and \<^verbatim>\<open>Element\<close> left off. The
  other elements of the HTML standard (\<^verbatim>\<open>section\<close>, \<^verbatim>\<open>nav\<close>, \<^verbatim>\<open>em\<close>, ...) have the
  interface \<^verbatim>\<open>HTMLElement\<close>; so has here a tag the standard does not know, which the
  platform gives \<^verbatim>\<open>HTMLUnknownElement\<close>.
\<close>

definition interfaceStem :: "string \<Rightarrow> string" where
  "interfaceStem tag =
     (case map_of
        [(''A'', ''Anchor''), (''AREA'', ''Area''), (''AUDIO'', ''Audio''), (''BASE'', ''Base''),
         (''BLOCKQUOTE'', ''Quote''), (''Q'', ''Quote''), (''BODY'', ''Body''), (''BR'', ''BR''),
         (''BUTTON'', ''Button''), (''CANVAS'', ''Canvas''), (''CAPTION'', ''TableCaption''),
         (''COL'', ''TableCol''), (''COLGROUP'', ''TableCol''), (''DATA'', ''Data''),
         (''DATALIST'', ''DataList''), (''DEL'', ''Mod''), (''INS'', ''Mod''),
         (''DETAILS'', ''Details''), (''DIALOG'', ''Dialog''), (''DIV'', ''Div''),
         (''DL'', ''DList''), (''EMBED'', ''Embed''), (''FIELDSET'', ''FieldSet''),
         (''FORM'', ''Form''), (''H1'', ''Heading''), (''H2'', ''Heading''), (''H3'', ''Heading''),
         (''H4'', ''Heading''), (''H5'', ''Heading''), (''H6'', ''Heading''), (''HEAD'', ''Head''),
         (''HR'', ''HR''), (''HTML'', ''Html''), (''IFRAME'', ''IFrame''), (''IMG'', ''Image''),
         (''INPUT'', ''Input''), (''LABEL'', ''Label''), (''LEGEND'', ''Legend''), (''LI'', ''LI''),
         (''LINK'', ''Link''), (''MAP'', ''Map''), (''MENU'', ''Menu''), (''META'', ''Meta''),
         (''METER'', ''Meter''), (''OBJECT'', ''Object''), (''OL'', ''OList''),
         (''OPTGROUP'', ''OptGroup''), (''OPTION'', ''Option''), (''OUTPUT'', ''Output''),
         (''P'', ''Paragraph''), (''PICTURE'', ''Picture''), (''PRE'', ''Pre''),
         (''PROGRESS'', ''Progress''), (''SCRIPT'', ''Script''), (''SELECT'', ''Select''),
         (''SLOT'', ''Slot''), (''SOURCE'', ''Source''), (''SPAN'', ''Span''), (''STYLE'', ''Style''),
         (''TABLE'', ''Table''), (''TBODY'', ''TableSection''), (''THEAD'', ''TableSection''),
         (''TFOOT'', ''TableSection''), (''TD'', ''TableCell''), (''TH'', ''TableCell''),
         (''TEMPLATE'', ''Template''), (''TEXTAREA'', ''TextArea''), (''TIME'', ''Time''),
         (''TITLE'', ''Title''), (''TR'', ''TableRow''), (''TRACK'', ''Track''),
         (''UL'', ''UList''), (''VIDEO'', ''Video''), (''DIR'', ''Directory''), (''FONT'', ''Font''),
         (''FRAME'', ''Frame''), (''FRAMESET'', ''FrameSet''), (''MARQUEE'', ''Marquee''),
         (''PARAM'', ''Param''), (''LISTING'', ''Pre''), (''XMP'', ''Pre'')] tag of
        None \<Rightarrow> []
      | Some stem \<Rightarrow> stem)"

definition hasOwnStringifier :: "document \<Rightarrow> nid \<Rightarrow> bool" where
  "hasOwnStringifier d n = (isElement d n \<and> List.member [''A'', ''AREA''] (tagName (nodes d n)))"

definition objectToString :: "document \<Rightarrow> nid \<Rightarrow> string" where
  "objectToString d n =
     (case nodeType (nodes d n) of
        TextNode \<Rightarrow> ''[object Text]''
      | DocumentNode \<Rightarrow> ''[object HTMLDocument]''
      | ElementNode \<Rightarrow>
          if hasOwnStringifier d n
          then (case map_of (attributes (nodes d n)) ''href'' of None \<Rightarrow> [] | Some h \<Rightarrow> h)
          else ''[object HTML'' @ interfaceStem (tagName (nodes d n)) @ ''Element]'')"

fun join :: "string list \<Rightarrow> string" where
  "join [] = []"
| "join [x] = x"
| "join (x # y # ys) = x @ '','' @ join (y # ys)"

definition toString :: "document \<Rightarrow> ctorArg \<Rightarrow> string" where
  "toString d arg =
     (case arg of
        ArgString sel \<Rightarrow> sel
      | ArgElement n \<Rightarrow> objectToString d n
      | ArgNodeList ns \<Rightarrow> ''[object NodeList]''
      | ArgArray ns \<Rightarrow> join (map (objectToString d) ns)
      | ArgOther \<Rightarrow> ''[object Object]'')"

definition selectorText :: "document \<Rightarrow> domMover \<Rightarrow> string" where
  "selectorText d this = toString d (elementOrSelector this) @ ''.'' @ instanceId this"

text \<open>The two \<^verbatim>\<open>insertBefore\<close> branches of \<^verbatim>\<open>handleDragOver\<close>.\<close>

definition movePlaceholder :: "document \<Rightarrow> domMover \<Rightarrow> nid \<Rightarrow> int \<Rightarrow> (error + document) option" where
  "movePlaceholder d this below y =
     (if y > lastMouseY this then
        (if nextElementSibling d below \<noteq> placeholder this then
           (case parentOf d below of
              None \<Rightarrow> Some (Inl TypeError)
            | Some p \<Rightarrow> insertBefore d p (placeholder this) (nextSibling d below))
         else Some (Inr d))
      else if y < lastMouseY this then
        (if previousElementSibling d below \<noteq> placeholder this then
           (case parentOf d below of
              None \<Rightarrow> Some (Inl TypeError)
            | Some p \<Rightarrow> insertBefore d p (placeholder this) (Some below))
         else Some (Inr d))
      else Some (Inr d))"

definition handleDragOver :: "engine \<Rightarrow> state \<Rightarrow> event \<Rightarrow> outcome option" where
  "handleDragOver E s e =
     (case closest E (dom s) (target e) (selectorText (dom s) (self s)) of
        None \<Rightarrow> None
      | Some (Inl err) \<Rightarrow> Some (Thrown err s True)
      | Some (Inr None) \<Rightarrow> Some (Returned s True)
      | Some (Inr (Some closestManagedElement)) \<Rightarrow>
          if Some closestManagedElement = draggedItem (self s) \<or>
             Some closestManagedElement = placeholder (self s)
          then Some (Returned s True)
          else
            (let mouseDirection = (if clientY e < lastMouseY (self s) then Up else Down) in
             case movePlaceholder (dom s) (self s) closestManagedElement (clientY e) of
               None \<Rightarrow> None
             | Some (Inl err) \<Rightarrow> Some (Thrown err s True)
             | Some (Inr d1) \<Rightarrow>
                 (let s1 = s\<lparr>dom := d1, self := (self s)\<lparr>lastMouseY := clientY e\<rparr>\<rparr> in
                  case placeholder (self s) of
                    None \<Rightarrow> Some (Thrown TypeError s1 True)
                  | Some ph \<Rightarrow>
                      (let placeholderPosition =
                             (if previousElementSibling d1 ph = Some closestManagedElement
                              then Top else Bottom);
                           s2 = (if allowDuplicateCallbacks (options (self s)) \<or>
                                    Some closestManagedElement \<noteq> lastDraggedOver (self s) \<or>
                                    Some mouseDirection \<noteq> lastMouseDirection (self s)
                                 then s1\<lparr>calls := calls s1 @
                                        (if callbacks_drag (options (self s))
                                         then [DragCall e (draggedItem (self s))
                                                 closestManagedElement placeholderPosition]
                                         else [])\<rparr>
                                 else s1)
                       in Some (Returned
                            (s2\<lparr>self := (self s2)\<lparr>lastDraggedOver := Some closestManagedElement,
                                             lastMouseDirection := Some mouseDirection\<rparr>\<rparr>)
                            True)))))"


subsection \<open>Drop: \<^verbatim>\<open>handleDrop\<close>\<close>

definition handleDrop :: "state \<Rightarrow> event \<Rightarrow> outcome option" where
  "handleDrop s e =
     (case draggedItem (self s) of
        None \<Rightarrow> Some (Returned s True)
      | Some item \<Rightarrow>
          (case placeholder (self s) of
             None \<Rightarrow> Some (Thrown TypeError s True)
           | Some ph \<Rightarrow>
               (let d = dom s;
                    prevElem = previousElementSibling d ph;
                    nextElem = nextElementSibling d ph;
                    beforeElementData = map_option (getItemData d (options (self s))) prevElem;
                    itemData = draggedItemData (self s);
                    s1 = (case callbacks_beforeDrop (options (self s)) of
                            None \<Rightarrow> s
                          | Some beforeDrop \<Rightarrow>
                              s\<lparr>calls := calls s @
                                  [BeforeDropCall item prevElem itemData beforeElementData nextElem]\<rparr>)
                in if (case callbacks_beforeDrop (options (self s)) of
                         None \<Rightarrow> False
                       | Some beforeDrop \<Rightarrow>
                           beforeDrop item prevElem itemData beforeElementData nextElem = JBool False)
                   then Some (Returned s1 True)
                   else
                     (case parentOf d ph of
                        None \<Rightarrow> Some (Thrown TypeError s1 True)
                      | Some p \<Rightarrow>
                          (case insertBefore d p (Some item) (Some ph) of
                             None \<Rightarrow> None
                           | Some (Inl err) \<Rightarrow> Some (Thrown err s1 True)
                           | Some (Inr d1) \<Rightarrow>
                               Some (Returned
                                 (s1\<lparr>dom := d1,
                                     calls := calls s1 @
                                       (if callbacks_drop (options (self s))
                                        then [DropCall item prevElem itemData beforeElementData nextElem]
                                        else [])\<rparr>)
                                 True))))))"

section \<open>A selector engine\<close>

text \<open>
  The handlers above work with any selector engine. For the statements that depend on
  what a selector's text means, here is the engine of a fragment of CSS: compound
  selectors built from a type or \<^verbatim>\<open>*\<close>, classes, identifiers and attribute presence,
  joined by the descendant and child combinators, in comma-separated lists. Text outside
  the fragment is rejected, as the platform rejects text that is not a selector.
\<close>

datatype token =
  TIdent string | TDot | THash | TStar | TOpen | TClose | TComma | TGreater | TSpace | TOther char

definition isDigit :: "char \<Rightarrow> bool" where
  "isDigit c = List.member ''0123456789'' c"

definition isIdentChar :: "char \<Rightarrow> bool" where
  "isIdentChar c =
     List.member ''abcdefghijklmnopqrstuvwxyzABCDEFGHIJKLMNOPQRSTUVWXYZ0123456789-_'' c"

definition punct :: "char \<Rightarrow> token" where
  "punct c =
     (if c = CHR ''.'' then TDot
      else if c = CHR ''#'' then THash
      else if c = CHR ''*'' then TStar
      else if c = CHR ''['' then TOpen
      else if c = CHR '']'' then TClose
      else if c = CHR '','' then TComma
      else if c = CHR ''>'' then TGreater
      else if isAsciiWhitespace c then TSpace
      else TOther c)"

definition flush :: "string \<Rightarrow> token list" where
  "flush acc = (if acc = [] then [] else [TIdent (rev acc)])"

fun lex :: "string \<Rightarrow> string \<Rightarrow> token list" where
  "lex [] acc = flush acc"
| "lex (c # cs) acc =
     (if isIdentChar c then lex cs (c # acc) else flush acc @ punct c # lex cs [])"

definition validIdent :: "string \<Rightarrow> bool" where
  "validIdent w =
     (case w of
        [] \<Rightarrow> False
      | c # cs \<Rightarrow>
          if isDigit c then False
          else if c = CHR ''-'' then (case cs of [] \<Rightarrow> False | c2 # _ \<Rightarrow> \<not> isDigit c2)
          else True)"

datatype simpleSelector =
  TypeSel string | UniversalSel | ClassSel string | IdSel string | AttrSel string

datatype combinator = Descendant | Child

type_synonym compound = "simpleSelector list"

text \<open>
  A complex selector: its subject (the rightmost compound), then the compounds to its
  left, nearest first, each with the combinator on its right.
\<close>

type_synonym complex = "compound \<times> (combinator \<times> compound) list"

datatype mode = Plain | WantClass | WantId | AttrBegin | AttrName string

record pstate =
  mode :: mode
  cur :: compound
  gap :: bool
  left :: "(combinator \<times> compound) list"
  sels :: "complex list"

definition pstart :: pstate where
  "pstart = \<lparr>mode = Plain, cur = [], gap = False, left = [], sels = []\<rparr>"

text \<open>White space between two compounds is the descendant combinator.\<close>

definition beginCompound :: "pstate \<Rightarrow> pstate" where
  "beginCompound st =
     (if gap st \<and> cur st \<noteq> []
      then st\<lparr>left := (Descendant, cur st) # left st, cur := [], gap := False\<rparr>
      else st)"

definition addSimple :: "simpleSelector \<Rightarrow> pstate \<Rightarrow> pstate" where
  "addSimple x st = st\<lparr>cur := cur st @ [x], mode := Plain\<rparr>"

fun plainStep :: "pstate \<Rightarrow> token \<Rightarrow> pstate option" where
  "plainStep st (TIdent w) =
     (if cur (beginCompound st) \<noteq> [] \<or> \<not> validIdent w then None
      else Some (addSimple (TypeSel w) (beginCompound st)))"
| "plainStep st TStar =
     (if cur (beginCompound st) \<noteq> [] then None else Some (addSimple UniversalSel (beginCompound st)))"
| "plainStep st TDot = Some ((beginCompound st)\<lparr>mode := WantClass\<rparr>)"
| "plainStep st THash = Some ((beginCompound st)\<lparr>mode := WantId\<rparr>)"
| "plainStep st TOpen = Some ((beginCompound st)\<lparr>mode := AttrBegin\<rparr>)"
| "plainStep st TSpace = Some (if cur st \<noteq> [] then st\<lparr>gap := True\<rparr> else st)"
| "plainStep st TGreater =
     (if cur st = [] then None
      else Some (st\<lparr>left := (Child, cur st) # left st, cur := [], gap := False\<rparr>))"
| "plainStep st TComma =
     (if cur st = [] then None
      else Some (st\<lparr>sels := (cur st, left st) # sels st, cur := [], left := [], gap := False\<rparr>))"
| "plainStep st TClose = None"
| "plainStep st (TOther c) = None"

fun step :: "pstate \<Rightarrow> token \<Rightarrow> pstate option" where
  "step st t =
     (case mode st of
        Plain \<Rightarrow> plainStep st t
      | WantClass \<Rightarrow>
          (case t of
             TIdent w \<Rightarrow> if validIdent w then Some (addSimple (ClassSel w) st) else None
           | _ \<Rightarrow> None)
      | WantId \<Rightarrow>
          (case t of
             TIdent w \<Rightarrow> if validIdent w then Some (addSimple (IdSel w) st) else None
           | _ \<Rightarrow> None)
      | AttrBegin \<Rightarrow>
          (case t of
             TSpace \<Rightarrow> Some st
           | TIdent w \<Rightarrow> if validIdent w then Some (st\<lparr>mode := AttrName w\<rparr>) else None
           | _ \<Rightarrow> None)
      | AttrName w \<Rightarrow>
          (case t of
             TSpace \<Rightarrow> Some st
           | TClose \<Rightarrow> Some (addSimple (AttrSel w) st)
           | _ \<Rightarrow> None))"

fun run :: "pstate \<Rightarrow> token list \<Rightarrow> pstate option" where
  "run st [] = Some st"
| "run st (t # ts) = (case step st t of None \<Rightarrow> None | Some st' \<Rightarrow> run st' ts)"

definition parseSelectors :: "string \<Rightarrow> complex list option" where
  "parseSelectors text =
     (case run pstart (lex text []) of
        None \<Rightarrow> None
      | Some st \<Rightarrow>
          if mode st = Plain \<and> cur st \<noteq> [] then Some (rev ((cur st, left st) # sels st))
          else None)"

text \<open>Matching. An HTML element's type is compared without regard to case.\<close>

definition matchesSimple :: "document \<Rightarrow> nid \<Rightarrow> simpleSelector \<Rightarrow> bool" where
  "matchesSimple d n x =
     (case x of
        TypeSel t \<Rightarrow> toUpperCase (tagName (nodes d n)) = toUpperCase t
      | UniversalSel \<Rightarrow> True
      | ClassSel c \<Rightarrow> List.member (classList (nodes d n)) c
      | IdSel i \<Rightarrow> map_of (attributes (nodes d n)) ''id'' = Some i
      | AttrSel a \<Rightarrow> map_of (attributes (nodes d n)) a \<noteq> None)"

definition matchesCompound :: "document \<Rightarrow> nid \<Rightarrow> compound \<Rightarrow> bool" where
  "matchesCompound d n c = list_all (matchesSimple d n) c"

fun matchesLeft :: "document \<Rightarrow> (combinator \<times> compound) list \<Rightarrow> nid list \<Rightarrow> bool" where
  "matchesLeft d [] as = True"
| "matchesLeft d ((k, c) # others) [] = False"
| "matchesLeft d ((Child, c) # others) (a # as) =
     (matchesCompound d a c \<and> matchesLeft d others as)"
| "matchesLeft d ((Descendant, c) # others) (a # as) =
     ((matchesCompound d a c \<and> matchesLeft d others as) \<or>
      matchesLeft d ((Descendant, c) # others) as)"

partial_function (option) ancestorsFrom :: "document \<Rightarrow> nid option \<Rightarrow> nid list option" where
  "ancestorsFrom d current =
     (case current of
        None \<Rightarrow> Some []
      | Some n \<Rightarrow> Option.bind (ancestorsFrom d (parentOf d n)) (\<lambda>as. Some (n # as)))"

definition matchesComplex :: "document \<Rightarrow> nid \<Rightarrow> complex \<Rightarrow> bool option" where
  "matchesComplex d n sel =
     (case sel of
        (subject, lefts) \<Rightarrow>
          if \<not> matchesCompound d n subject then Some False
          else if lefts = [] then Some True
          else
            (case ancestorsFrom d (parentOf d n) of
               None \<Rightarrow> None
             | Some as \<Rightarrow> Some (matchesLeft d lefts (filter (isElement d) as))))"

fun matchesAny :: "document \<Rightarrow> nid \<Rightarrow> complex list \<Rightarrow> bool option" where
  "matchesAny d n [] = Some False"
| "matchesAny d n (sel # others) =
     (case matchesComplex d n sel of
        None \<Rightarrow> None
      | Some m \<Rightarrow> if m then Some True else matchesAny d n others)"

definition css :: engine where
  "css text =
     (case parseSelectors text of
        None \<Rightarrow> None
      | Some selectors \<Rightarrow> Some (\<lambda>d n. matchesAny d n selectors))"

section \<open>Notions the statements use\<close>

text \<open>
  The child list of \<open>p\<close> is well formed when it names no node twice and every node in it
  has \<open>p\<close> as its parent; every tree the browser builds is so.
\<close>

definition childrenWf :: "document \<Rightarrow> nid \<Rightarrow> bool" where
  "childrenWf d p =
     (distinct (childNodes (nodes d p)) \<and>
      list_all (\<lambda>c. parentOf d c = Some p) (childNodes (nodes d p)))"

text \<open>The document \<^verbatim>\<open>insertBefore\<close> leaves when none of its checks fails.\<close>

definition inserted :: "document \<Rightarrow> nid \<Rightarrow> nid \<Rightarrow> nid option \<Rightarrow> document" where
  "inserted d p n ref =
     (setParent
        (setChildren (detach d n) p (insertAt n ref (removeAll n (childNodes (nodes d p)))))
        n (Some p))
     \<lparr>mutations := mutations d @ [Inserted p n ref]\<rparr>"

text \<open>Whether the \<^verbatim>\<open>beforeDrop\<close> callback answers exactly \<^verbatim>\<open>false\<close> to the drop at hand.\<close>

definition vetoed :: "state \<Rightarrow> nid \<Rightarrow> nid \<Rightarrow> bool" where
  "vetoed s item ph =
     (case callbacks_beforeDrop (options (self s)) of
        None \<Rightarrow> False
      | Some beforeDrop \<Rightarrow>
          beforeDrop item (previousElementSibling (dom s) ph) (draggedItemData (self s))
            (map_option (getItemData (dom s) (options (self s)))
               (previousElementSibling (dom s) ph))
            (nextElementSibling (dom s) ph) = JBool False)"

text \<open>
  Reading a handler's result: the state it leaves (the one it started from when a walk
  of the tree does not end), whether it returned, what it threw, and whether it called
  \<^verbatim>\<open>preventDefault\<close>.
\<close>

definition stateAfter :: "state \<Rightarrow> outcome option \<Rightarrow> state" where
  "stateAfter s r =
     (case r of None \<Rightarrow> s | Some (Returned s' p) \<Rightarrow> s' | Some (Thrown err s' p) \<Rightarrow> s')"

definition returnedOk :: "outcome option \<Rightarrow> bool" where
  "returnedOk r = (case r of Some (Returned s' p) \<Rightarrow> True | _ \<Rightarrow> False)"

definition threw :: "outcome option \<Rightarrow> error option" where
  "threw r = (case r of Some (Thrown err s' p) \<Rightarrow> Some err | _ \<Rightarrow> None)"

definition defaultPrevented :: "outcome option \<Rightarrow> bool" where
  "defaultPrevented r =
     (case r of None \<Rightarrow> False | Some (Returned s' p) \<Rightarrow> p | Some (Thrown err s' p) \<Rightarrow> p)"

definition doneState :: "state attempt option \<Rightarrow> state option" where
  "doneState r = (case r of Some (Done s) \<Rightarrow> Some s | _ \<Rightarrow> None)"

text \<open>What \<^verbatim>\<open>bindEvents\<close> asks for: \<^verbatim>\<open>this.getParentElement('pickup')\<close>.\<close>

definition delegationRoot :: "engine \<Rightarrow> state \<Rightarrow> (error + nid option) option" where
  "delegationRoot E s = getParentElement E (dom s) (self s) Pickup"

text \<open>
  A state without its functions: the nodes allocated so far, the log of the document's
  mutations and every field but the options. Two states with the same snapshot and the same options are the same as far as
  the handlers can tell.
\<close>

definition snapshot ::
  "state \<Rightarrow>
   node list \<times> (nid \<times> nid \<times> nid) \<times> mutation list \<times>
   (nid list \<times> ctorArg \<times> int \<times> string \<times> string option \<times> nid option \<times> direction option \<times>
    nid option \<times> itemData option \<times> nid option) \<times>
   call list \<times> string list \<times> nid option \<times> nid list" where
  "snapshot s =
     (map (nodes (dom s)) [0..<fresh (dom s)], (root (dom s), body (dom s), fresh (dom s)),
      mutations (dom s),
      (elements (self s), elementOrSelector (self s), lastMouseY (self s), instanceId (self s),
       tagNameCopy (self s), lastDraggedOver (self s), lastMouseDirection (self s),
       draggedItem (self s), draggedItemData (self s), placeholder (self s)),
      calls s, console s, listenersAt s, frameQueue s)"




section \<open>A sample page and the states of a gesture on it\<close>

text \<open>
  The page \<^verbatim>\<open><html><body><ul><li/><li/><li/></ul></body></html>\<close>: the document is
  node 0, \<^verbatim>\<open>html\<close> 1, \<^verbatim>\<open>body\<close> 2, the list 3 and its items 4, 5 and 6.
\<close>

definition elementNode ::
  "string \<Rightarrow> string list \<Rightarrow> (string \<times> string) list \<Rightarrow> nid option \<Rightarrow> nid list \<Rightarrow> node" where
  "elementNode tag classes attrs parent children =
     \<lparr>nodeType = ElementNode, tagName = tag, classList = classes, attributes = attrs,
      dataset = [], parentNode = parent, childNodes = children\<rparr>"

definition marker :: string where
  "marker = ''dmk3x9q2a''"

definition listPage :: document where
  "listPage =
     \<lparr>nodes = (\<lambda>n. blankNode TextNode [])
        (0 := (blankNode DocumentNode [])\<lparr>childNodes := [1]\<rparr>,
         1 := elementNode ''HTML'' [] [] (Some 0) [2],
         2 := elementNode ''BODY'' [] [] (Some 1) [3],
         3 := elementNode ''UL'' [] [] (Some 2) [4, 5, 6],
         4 := elementNode ''LI'' [] [] (Some 3) [],
         5 := elementNode ''LI'' [] [] (Some 3) [],
         6 := elementNode ''LI'' [] [] (Some 3) []),
      root = 0, body = 2, fresh = 7, mutations = []\<rparr>"

text \<open>A list item as \<^verbatim>\<open>init\<close> leaves it: draggable and tagged with the marker.\<close>

definition managed :: "string list \<Rightarrow> node" where
  "managed extra = elementNode ''LI'' (marker # extra) [(''draggable'', ''true'')] (Some 3) []"

definition taggedPage :: document where
  "taggedPage =
     listPage\<lparr>nodes := (nodes listPage)(4 := managed [], 5 := managed [], 6 := managed [])\<rparr>"

text \<open>
  The options of the sample instance: the list as pickup parent, every callback given,
  \<^verbatim>\<open>beforeDrop\<close> returning \<^verbatim>\<open>undefined\<close>.
\<close>

definition allowDrop ::
  "nid \<Rightarrow> nid option \<Rightarrow> itemData option \<Rightarrow> itemData option \<Rightarrow> nid option \<Rightarrow> jsval" where
  "allowDrop item prevElem itemData beforeElementData nextElem = JUndefined"

definition demoOptions :: options where
  "demoOptions =
     defaults\<lparr>pickup_parent := Some ''ul'', callbacks_pickup := True, callbacks_drag := True,
              callbacks_drop := True, callbacks_beforeDrop := Some allowDrop\<rparr>"

text \<open>\<open>idle\<close>: the instance \<^verbatim>\<open>new DomMover('li', ...)\<close> right after construction.\<close>

definition idle :: state where
  "idle =
     \<lparr>dom = taggedPage, self = newInstance (ArgString ''li'') demoOptions marker [4, 5, 6],
      calls = [], console = [], listenersAt = Some 3, frameQueue = []\<rparr>"

text \<open>
  The page during a drag of item 4: the placeholder is node 7 and the drag image, put
  into the body by \<^verbatim>\<open>setCustomDragImage\<close> and taken off the page again by the animation
  frame, node 8. The moves of the placeholder so far are an argument.
\<close>

definition draggingPage :: "nid list \<Rightarrow> nid option \<Rightarrow> mutation list \<Rightarrow> document" where
  "draggingPage listItems placeholderParent moves =
     taggedPage\<lparr>nodes := (nodes taggedPage)
        (3 := elementNode ''UL'' [] [] (Some 2) listItems,
         4 := managed [''sortable-dragging''],
         7 := elementNode ''LI'' [''sortable-placeholder'', marker, ''sortable-drop-indicator''] []
                placeholderParent [],
         8 := elementNode ''LI'' [marker, ''sortable-dragging'', ''sortable-drag-image'']
                [(''draggable'', ''true'')] None []),
       fresh := 9, mutations := [Inserted 2 8 None, Removed 2 8] @ moves\<rparr>"

definition pickedUp :: call where
  "pickedUp = PickupCall 4 [(''id'', None), (''sort'', None)] None (Some 5)"

text \<open>\<open>dragging\<close>: item 4 has been picked up, no positioning tick has moved the placeholder.\<close>

definition dragging :: state where
  "dragging =
     idle\<lparr>dom := draggingPage [4, 5, 6] None [],
          self := (self idle)\<lparr>draggedItem := Some 4, tagNameCopy := Some ''LI'',
                    draggedItemData := Some [(''id'', None), (''sort'', None)],
                    placeholder := Some 7\<rparr>,
          calls := [pickedUp]\<rparr>"

text \<open>\<open>over5\<close>: one tick over item 5 at \<^verbatim>\<open>clientY = 10\<close> has put the placeholder after it.\<close>

definition over5 :: state where
  "over5 =
     dragging\<lparr>dom := draggingPage [4, 5, 7, 6] (Some 3) [Inserted 3 7 (Some 6)],
          self := (self dragging)\<lparr>lastMouseY := 10, lastDraggedOver := Some 5,
                    lastMouseDirection := Some Down\<rparr>,
          calls := [pickedUp, DragCall \<lparr>target = 5, clientY = 10\<rparr> (Some 4) 5 Top]\<rparr>"

text \<open>
  A table whose two bodies (nodes 4 and 5) were handed to
  \<^verbatim>\<open>new DomMover('tbody', {pickup: {parent: 'table', ...}})\<close>.
\<close>

definition tablePage :: document where
  "tablePage =
     \<lparr>nodes = (\<lambda>n. blankNode TextNode [])
        (0 := (blankNode DocumentNode [])\<lparr>childNodes := [1]\<rparr>,
         1 := elementNode ''HTML'' [] [] (Some 0) [2],
         2 := elementNode ''BODY'' [] [] (Some 1) [3],
         3 := elementNode ''TABLE'' [] [] (Some 2) [4, 5],
         4 := elementNode ''TBODY'' [marker] [(''draggable'', ''true'')] (Some 3) [],
         5 := elementNode ''TBODY'' [marker] [(''draggable'', ''true'')] (Some 3) []),
      root = 0, body = 2, fresh = 6, mutations = []\<rparr>"

definition tableIdle :: state where
  "tableIdle =
     \<lparr>dom = tablePage,
      self = newInstance (ArgString ''tbody'') (demoOptions\<lparr>pickup_parent := Some ''table''\<rparr>)
               marker [4, 5],
      calls = [], console = [], listenersAt = Some 3, frameQueue = []\<rparr>"

text \<open>The instance the jQuery plug-in makes, \<^verbatim>\<open>new DomMover(this, options)\<close>, for item 4.\<close>

definition pluginIdle :: state where
  "pluginIdle =
     \<lparr>dom = listPage\<lparr>nodes := (nodes listPage)(4 := managed [])\<rparr>,
      self = newInstance (ArgElement 4) demoOptions marker [4],
      calls = [], console = [], listenersAt = Some 3, frameQueue = []\<rparr>"

text \<open>The instance \<^verbatim>\<open>new DomMover([], options)\<close>: no element to manage, none tagged.\<close>

definition emptyIdle :: state where
  "emptyIdle =
     \<lparr>dom = listPage, self = newInstance (ArgArray []) demoOptions marker [],
      calls = [], console = [], listenersAt = Some 3, frameQueue = []\<rparr>"

text \<open>
  A page of two links without \<^verbatim>\<open>href\<close> in a \<^verbatim>\<open>div\<close> (nodes 4 and 5 in node 3), and the
  instance \<^verbatim>\<open>new DomMover(link, {pickup: {parent: 'div', ...}})\<close> for the first of them:
  after construction, and during the drag of the link, with the placeholder node 6 and
  the drag image node 7.
\<close>

definition linkPage :: document where
  "linkPage =
     \<lparr>nodes = (\<lambda>n. blankNode TextNode [])
        (0 := (blankNode DocumentNode [])\<lparr>childNodes := [1]\<rparr>,
         1 := elementNode ''HTML'' [] [] (Some 0) [2],
         2 := elementNode ''BODY'' [] [] (Some 1) [3],
         3 := elementNode ''DIV'' [] [] (Some 2) [4, 5],
         4 := elementNode ''A'' [] [] (Some 3) [],
         5 := elementNode ''A'' [] [] (Some 3) []),
      root = 0, body = 2, fresh = 6, mutations = []\<rparr>"

definition linkIdle :: state where
  "linkIdle =
     \<lparr>dom = linkPage\<lparr>nodes := (nodes linkPage)
              (4 := elementNode ''A'' [marker] [(''draggable'', ''true'')] (Some 3) [])\<rparr>,
      self = newInstance (ArgElement 4) (demoOptions\<lparr>pickup_parent := Some ''div''\<rparr>) marker [4],
      calls = [], console = [], listenersAt = Some 3, frameQueue = []\<rparr>"

definition linkDragging :: state where
  "linkDragging =
     linkIdle\<lparr>dom := (dom linkIdle)\<lparr>nodes := (nodes (dom linkIdle))
                 (4 := elementNode ''A'' [marker, ''sortable-dragging''] [(''draggable'', ''true'')]
                         (Some 3) [],
                  6 := elementNode ''A'' [''sortable-placeholder'', marker, ''sortable-drop-indicator'']
                         [] None [],
                  7 := elementNode ''A'' [marker, ''sortable-dragging'', ''sortable-drag-image'']
                         [(''draggable'', ''true'')] None []),
               fresh := 8, mutations := [Inserted 2 7 None, Removed 2 7]\<rparr>,
          self := (self linkIdle)\<lparr>draggedItem := Some 4, tagNameCopy := Some ''A'',
                    draggedItemData := Some [(''id'', None), (''sort'', None)],
                    placeholder := Some 6\<rparr>,
          calls := [PickupCall 4 [(''id'', None), (''sort'', None)] None (Some 5)]\<rparr>"

declare containsFrom.simps [code]
declare closestFrom.simps [code]
declare collectMatches.simps [code]
declare notDisabledFrom.simps [code]
declare commonParentFrom.simps [code]
declare cloneInto.simps [code]
declare ancestorsFrom.simps [code]

section \<open>The tree after \<^verbatim>\<open>insertBefore\<close>\<close>

text \<open>
  Where a node lands when it is inserted before a reference child, or at the end, of a
  well formed child list, and what that means for the sibling relation the handlers read.
\<close>

lemma insertAt_before:
  "r \<notin> set xs \<Longrightarrow> insertAt n (Some r) (xs @ r # ys) = xs @ n # r # ys"
  by (induction xs) auto

lemma dropWhile_first: "b \<notin> set xs \<Longrightarrow> dropWhile (\<lambda>x. x \<noteq> b) (xs @ b # ys) = b # ys"
  by (induction xs) auto

lemma takeWhile_first: "b \<notin> set xs \<Longrightarrow> takeWhile (\<lambda>x. x \<noteq> b) (xs @ b # ys) = xs"
  by (induction xs) auto

lemma setChildren_nodes [simp]:
  "childNodes (nodes (setChildren d p cs) n) = (if n = p then cs else childNodes (nodes d n))"
  "parentNode (nodes (setChildren d p cs) n) = parentNode (nodes d n)"
  "nodeType (nodes (setChildren d p cs) n) = nodeType (nodes d n)"
  by (simp_all add: setChildren_def)

lemma setParent_nodes [simp]:
  "childNodes (nodes (setParent d m q) n) = childNodes (nodes d n)"
  "parentNode (nodes (setParent d m q) n) = (if n = m then q else parentNode (nodes d n))"
  "nodeType (nodes (setParent d m q) n) = nodeType (nodes d n)"
  by (simp_all add: setParent_def)

lemma detach_children:
  assumes "childrenWf d p" "n \<noteq> p"
  shows "childNodes (nodes (detach d n) p) = removeAll n (childNodes (nodes d p))"
proof (cases "parentOf d n")
  case None
  have "n \<notin> set (childNodes (nodes d p))"
    using assms None by (auto simp: childrenWf_def list_all_iff)
  then show ?thesis using None by (simp add: detach_def)
next
  case (Some q)
  show ?thesis
  proof (cases "q = p")
    case True
    then show ?thesis using Some by (simp add: detach_def)
  next
    case False
    have "n \<notin> set (childNodes (nodes d p))"
      using assms Some False by (auto simp: childrenWf_def list_all_iff)
    then show ?thesis using Some False by (simp add: detach_def)
  qed
qed

lemma detach_parent: "m \<noteq> n \<Longrightarrow> parentOf (detach d n) m = parentOf d m"
  by (simp add: detach_def parentOf_def split: option.splits)

lemma detach_type: "nodeType (nodes (detach d n) m) = nodeType (nodes d m)"
  by (simp add: detach_def split: option.splits)

lemma contains_False_neq: "contains d n p = Some False \<Longrightarrow> n \<noteq> p"
  by (auto simp: contains_def containsFrom.simps)

lemma insertBefore_ok:
  assumes wf: "childrenWf d p"
    and anc: "contains d n p = Some False"
    and tp: "isElement d p" and tn: "isElement d n"
    and ch: "case child of None \<Rightarrow> True | Some c \<Rightarrow> c \<in> set (childNodes (nodes d p)) \<and> c \<noteq> n"
  shows "insertBefore d p (Some n) child = Some (Inr (inserted d p n child))"
proof -
  have np: "n \<noteq> p" using anc by (rule contains_False_neq)
  have c1: "\<not> (case child of None \<Rightarrow> False | Some c \<Rightarrow> parentOf d c \<noteq> Some p)"
    using ch wf by (auto simp: childrenWf_def list_all_iff split: option.splits)
  have c2: "child \<noteq> Some n" using ch by (auto split: option.splits)
  have dc: "childNodes (nodes (detach d n) p) = removeAll n (childNodes (nodes d p))"
    using wf np by (rule detach_children)
  show ?thesis
    using anc tp tn c1 c2 dc
    by (simp add: insertBefore_def isElement_def inserted_def Let_def)
qed

lemma inserted_children: "n \<noteq> p \<Longrightarrow>
  childNodes (nodes (inserted d p n ref) p) = insertAt n ref (removeAll n (childNodes (nodes d p)))"
  by (simp add: inserted_def)

lemma inserted_parent:
  "parentOf (inserted d p n ref) m = (if m = n then Some p else parentOf d m)"
  by (simp add: inserted_def parentOf_def detach_def split: option.splits)

lemma inserted_type: "isElement (inserted d p n ref) m = isElement d m"
  by (simp add: inserted_def isElement_def detach_type)

lemma inserted_mutations: "mutations (inserted d p n ref) = mutations d @ [Inserted p n ref]"
  by (simp add: inserted_def)

lemma after_insert:
  assumes "distinct cs" "b \<in> set cs" "n \<noteq> b"
    and "ref = (case tl (dropWhile (\<lambda>x. x \<noteq> b) cs) of [] \<Rightarrow> None | x # _ \<Rightarrow> Some x)"
    and "ref \<noteq> Some n"
  shows "\<exists>zs. tl (dropWhile (\<lambda>x. x \<noteq> b) (insertAt n ref (removeAll n cs))) = n # zs"
proof -
  obtain xs ys where cs: "cs = xs @ b # ys" and bx: "b \<notin> set xs"
    using assms(2) by (auto dest: split_list_first)
  have by': "b \<notin> set ys" using assms(1) cs by auto
  have dw: "dropWhile (\<lambda>x. x \<noteq> b) cs = b # ys" using cs bx by (simp add: dropWhile_first)
  show ?thesis
  proof (cases ys)
    case Nil
    then have "ref = None" using assms(4) dw by simp
    moreover have "removeAll n cs = removeAll n xs @ [b]" using cs Nil assms(3) by simp
    moreover have "b \<notin> set (removeAll n xs)" using bx by simp
    ultimately show ?thesis
      using dropWhile_first[of b "removeAll n xs" "[n]"] by simp
  next
    case (Cons r ys')
    then have ref: "ref = Some r" using assms(4) dw by simp
    then have rn: "r \<noteq> n" using assms(5) by auto
    have rb: "r \<noteq> b" using by' Cons by auto
    have rx: "r \<notin> set xs" using assms(1) cs Cons by auto
    have rm: "removeAll n cs = (removeAll n xs @ [b]) @ r # removeAll n ys'"
      using cs Cons assms(3) rn by simp
    have "r \<notin> set (removeAll n xs @ [b])" using rx rb by simp
    then have "insertAt n ref (removeAll n cs) = (removeAll n xs @ [b]) @ n # r # removeAll n ys'"
      unfolding rm ref by (rule insertAt_before)
    moreover have "b \<notin> set (removeAll n xs)" using bx by simp
    ultimately show ?thesis
      using dropWhile_first[of b "removeAll n xs" "n # r # removeAll n ys'"] by simp
  qed
qed

lemma before_insert:
  assumes "b \<in> set cs" "n \<noteq> b"
  shows "\<exists>zs. rev (takeWhile (\<lambda>x. x \<noteq> b) (insertAt n (Some b) (removeAll n cs))) = n # zs"
proof -
  obtain xs ys where cs: "cs = xs @ b # ys" and bx: "b \<notin> set xs"
    using assms(1) by (auto dest: split_list_first)
  have rm: "removeAll n cs = removeAll n xs @ b # removeAll n ys"
    using cs assms(2) by simp
  have bx': "b \<notin> set (removeAll n xs)" using bx by simp
  then have "insertAt n (Some b) (removeAll n cs) = (removeAll n xs @ [n]) @ b # removeAll n ys"
    unfolding rm by (simp add: insertAt_before)
  moreover have "b \<notin> set (removeAll n xs @ [n])" using bx' assms(2) by simp
  ultimately show ?thesis
    using takeWhile_first[of b "removeAll n xs @ [n]" "removeAll n ys"] by simp
qed

lemma after_insert_before:
  assumes "r \<in> set cs" "n \<noteq> r"
  shows "\<exists>zs. tl (dropWhile (\<lambda>x. x \<noteq> n) (insertAt n (Some r) (removeAll n cs))) = r # zs"
proof -
  obtain xs ys where cs: "cs = xs @ r # ys" and rx: "r \<notin> set xs"
    using assms(1) by (auto dest: split_list_first)
  have rm: "removeAll n cs = removeAll n xs @ r # removeAll n ys"
    using cs assms(2) by simp
  have "r \<notin> set (removeAll n xs)" using rx by simp
  then have "insertAt n (Some r) (removeAll n cs) = removeAll n xs @ n # r # removeAll n ys"
    unfolding rm by (rule insertAt_before)
  moreover have "n \<notin> set (removeAll n xs)" by simp
  ultimately show ?thesis
    using dropWhile_first[of n "removeAll n xs" "r # removeAll n ys"] by simp
qed

lemma insert_after_below:
  assumes wf: "childrenWf d p"
    and at: "parentOf d below = Some p" "below \<in> set (childNodes (nodes d p))"
    and anc: "contains d ph p = Some False"
    and tp: "isElement d p" and tn: "isElement d ph"
    and neq: "ph \<noteq> below"
    and guard: "nextElementSibling d below \<noteq> Some ph"
  shows "insertBefore d p (Some ph) (nextSibling d below) =
           Some (Inr (inserted d p ph (nextSibling d below))) \<and>
         nextElementSibling (inserted d p ph (nextSibling d below)) below = Some ph"
proof -
  let ?cs = "childNodes (nodes d p)"
  let ?ref = "nextSibling d below"
  have np: "ph \<noteq> p" using anc by (rule contains_False_neq)
  have sa: "siblingsAfter d below = tl (dropWhile (\<lambda>x. x \<noteq> below) ?cs)"
    using at by (simp add: siblingsAfter_def siblings_def)
  have refdef: "?ref = (case tl (dropWhile (\<lambda>x. x \<noteq> below) ?cs) of [] \<Rightarrow> None | x # _ \<Rightarrow> Some x)"
    by (simp add: nextSibling_def sa)
  have refn: "?ref \<noteq> Some ph"
  proof
    assume "?ref = Some ph"
    then obtain zs where "siblingsAfter d below = ph # zs"
      by (auto simp: nextSibling_def split: list.splits)
    then have "nextElementSibling d below = Some ph"
      using tn by (simp add: nextElementSibling_def)
    then show False using guard by simp
  qed
  have refin: "case ?ref of None \<Rightarrow> True | Some c \<Rightarrow> c \<in> set ?cs \<and> c \<noteq> ph"
  proof (cases ?ref)
    case None then show ?thesis by simp
  next
    case (Some c)
    then obtain zs where "tl (dropWhile (\<lambda>x. x \<noteq> below) ?cs) = c # zs"
      using refdef by (auto split: list.splits)
    then have "c \<in> set (tl (dropWhile (\<lambda>x. x \<noteq> below) ?cs))" by simp
    then have "c \<in> set (dropWhile (\<lambda>x. x \<noteq> below) ?cs)"
      by (cases "dropWhile (\<lambda>x. x \<noteq> below) ?cs") auto
    then have "c \<in> set ?cs"
      by (rule set_dropWhileD)
    then show ?thesis using Some refn by simp
  qed
  have ok: "insertBefore d p (Some ph) ?ref = Some (Inr (inserted d p ph ?ref))"
    using wf anc tp tn refin by (rule insertBefore_ok)
  have dist: "distinct ?cs" using wf by (simp add: childrenWf_def)
  obtain zs where zs: "tl (dropWhile (\<lambda>x. x \<noteq> below) (insertAt ph ?ref (removeAll ph ?cs))) = ph # zs"
    using after_insert[OF dist at(2) neq refdef refn] by blast
  have "siblingsAfter (inserted d p ph ?ref) below = ph # zs"
    using at(1) neq np zs
    by (simp add: siblingsAfter_def siblings_def inserted_parent inserted_children)
  then have "nextElementSibling (inserted d p ph ?ref) below = Some ph"
    using tn by (simp add: nextElementSibling_def inserted_type)
  then show ?thesis using ok by simp
qed

lemma insert_before_below:
  assumes wf: "childrenWf d p"
    and at: "parentOf d below = Some p" "below \<in> set (childNodes (nodes d p))"
    and anc: "contains d ph p = Some False"
    and tp: "isElement d p" and tn: "isElement d ph"
    and neq: "ph \<noteq> below"
  shows "insertBefore d p (Some ph) (Some below) = Some (Inr (inserted d p ph (Some below))) \<and>
         previousElementSibling (inserted d p ph (Some below)) below = Some ph"
proof -
  let ?cs = "childNodes (nodes d p)"
  have np: "ph \<noteq> p" using anc by (rule contains_False_neq)
  have ok: "insertBefore d p (Some ph) (Some below) = Some (Inr (inserted d p ph (Some below)))"
    using wf anc tp tn at(2) neq by (intro insertBefore_ok) auto
  obtain zs where zs: "rev (takeWhile (\<lambda>x. x \<noteq> below) (insertAt ph (Some below) (removeAll ph ?cs))) = ph # zs"
    using before_insert[OF at(2) neq] by blast
  have "siblingsBefore (inserted d p ph (Some below)) below = ph # zs"
    using at(1) neq np zs
    by (simp add: siblingsBefore_def siblings_def inserted_parent inserted_children)
  then have "previousElementSibling (inserted d p ph (Some below)) below = Some ph"
    using tn by (simp add: previousElementSibling_def inserted_type)
  then show ?thesis using ok by simp
qed

lemma insert_dragged_before:
  assumes wf: "childrenWf d p"
    and at: "ph \<in> set (childNodes (nodes d p))"
    and anc: "contains d item p = Some False"
    and tp: "isElement d p" and tn: "isElement d item"
    and neq: "item \<noteq> ph"
  shows "\<exists>d'. insertBefore d p (Some item) (Some ph) = Some (Inr d') \<and>
              nextSibling d' item = Some ph \<and> parentOf d' item = Some p"
proof -
  let ?cs = "childNodes (nodes d p)"
  have np: "item \<noteq> p" using anc by (rule contains_False_neq)
  have ok: "insertBefore d p (Some item) (Some ph) = Some (Inr (inserted d p item (Some ph)))"
    using wf anc tp tn at neq by (intro insertBefore_ok) auto
  obtain zs where zs:
    "tl (dropWhile (\<lambda>x. x \<noteq> item) (insertAt item (Some ph) (removeAll item ?cs))) = ph # zs"
    using after_insert_before[OF at neq] by blast
  have "siblingsAfter (inserted d p item (Some ph)) item = ph # zs"
    using np zs
    by (simp add: siblingsAfter_def siblings_def inserted_parent inserted_children)
  then have "nextSibling (inserted d p item (Some ph)) item = Some ph"
    by (simp add: nextSibling_def)
  then show ?thesis using ok by (simp add: inserted_parent)
qed

section \<open>One positioning tick\<close>

lemma movePlaceholder_ok:
  assumes wf: "childrenWf d p"
    and at: "parentOf d below = Some p" "below \<in> set (childNodes (nodes d p))"
    and anc: "contains d ph p = Some False"
    and tp: "isElement d p" and tn: "isElement d ph"
    and neq: "ph \<noteq> below"
    and ph: "placeholder this = Some ph"
  shows "\<exists>d1. movePlaceholder d this below y = Some (Inr d1) \<and>
           (lastMouseY this < y \<longrightarrow> nextElementSibling d1 below = Some ph) \<and>
           (y < lastMouseY this \<longrightarrow> previousElementSibling d1 below = Some ph) \<and>
           (y = lastMouseY this \<longrightarrow> d1 = d)"
proof -
  consider (down) "lastMouseY this < y" | (up) "y < lastMouseY this" | (same) "y = lastMouseY this"
    by linarith
  then show ?thesis
  proof cases
    case down
    show ?thesis
    proof (cases "nextElementSibling d below = Some ph")
      case True
      then show ?thesis using down ph by (simp add: movePlaceholder_def)
    next
      case False
      from insert_after_below[OF wf at anc tp tn neq False]
      obtain d' where "insertBefore d p (Some ph) (nextSibling d below) = Some (Inr d')"
        and "nextElementSibling d' below = Some ph" by blast
      then show ?thesis using down ph at(1) False by (simp add: movePlaceholder_def)
    qed
  next
    case up
    show ?thesis
    proof (cases "previousElementSibling d below = Some ph")
      case True
      then show ?thesis using up ph by (simp add: movePlaceholder_def)
    next
      case False
      from insert_before_below[OF wf at anc tp tn neq]
      obtain d' where "insertBefore d p (Some ph) (Some below) = Some (Inr d')"
        and "previousElementSibling d' below = Some ph" by blast
      then show ?thesis using up ph at(1) False by (simp add: movePlaceholder_def)
    qed
  next
    case same
    then show ?thesis by (simp add: movePlaceholder_def)
  qed
qed

lemma movePlaceholder_moves:
  assumes wf: "childrenWf d p"
    and at: "parentOf d below = Some p" "below \<in> set (childNodes (nodes d p))"
    and anc: "contains d ph p = Some False"
    and tp: "isElement d p" and tn: "isElement d ph"
    and neq: "ph \<noteq> below"
    and ph: "placeholder this = Some ph"
  shows "movePlaceholder d this below y =
           Some (Inr (if lastMouseY this < y \<and> nextElementSibling d below \<noteq> Some ph
                      then inserted d p ph (nextSibling d below)
                      else if y < lastMouseY this \<and> previousElementSibling d below \<noteq> Some ph
                      then inserted d p ph (Some below)
                      else d))"
proof -
  have a: "insertBefore d p (Some ph) (nextSibling d below) =
             Some (Inr (inserted d p ph (nextSibling d below)))"
    if "nextElementSibling d below \<noteq> Some ph"
    using insert_after_below[OF wf at anc tp tn neq that] by simp
  have b: "insertBefore d p (Some ph) (Some below) = Some (Inr (inserted d p ph (Some below)))"
    using insert_before_below[OF wf at anc tp tn neq] by simp
  show ?thesis using a b ph at(1) by (auto simp: movePlaceholder_def)
qed

lemma handleDragOver_returned:
  assumes cl: "closest E (dom s) (target e) (selectorText (dom s) (self s)) = Some (Inr (Some below))"
    and nd: "draggedItem (self s) \<noteq> Some below"
    and ph: "placeholder (self s) = Some ph" and neq: "ph \<noteq> below"
    and mv: "movePlaceholder (dom s) (self s) below (clientY e) = Some (Inr d1)"
  shows "\<exists>s'. handleDragOver E s e = Some (Returned s' True) \<and> dom s' = d1 \<and>
           lastMouseY (self s') = clientY e \<and>
           lastDraggedOver (self s') = Some below \<and>
           lastMouseDirection (self s') =
             Some (if clientY e < lastMouseY (self s) then Up else Down) \<and>
           placeholder (self s') = Some ph \<and>
           draggedItem (self s') = draggedItem (self s) \<and>
           options (self s') = options (self s) \<and>
           elementOrSelector (self s') = elementOrSelector (self s) \<and>
           instanceId (self s') = instanceId (self s) \<and>
           calls s' = calls s @
             (if (allowDuplicateCallbacks (options (self s)) \<or>
                  Some below \<noteq> lastDraggedOver (self s) \<or>
                  Some (if clientY e < lastMouseY (self s) then Up else Down)
                    \<noteq> lastMouseDirection (self s)) \<and>
                 callbacks_drag (options (self s))
              then [DragCall e (draggedItem (self s)) below
                      (if previousElementSibling d1 ph = Some below then Top else Bottom)]
              else [])"
  using cl nd ph neq mv
  by (simp add: handleDragOver_def Let_def)

lemma handleDragOver_calls:
  assumes cl: "closest E (dom s) (target e) (selectorText (dom s) (self s)) = Some (Inr (Some below))"
    and nd: "draggedItem (self s) \<noteq> Some below" "placeholder (self s) \<noteq> Some below"
    and ret: "handleDragOver E s e = Some (Returned s' pr)"
  shows "lastDraggedOver (self s') = Some below \<and>
         lastMouseDirection (self s') = Some (if clientY e < lastMouseY (self s) then Up else Down) \<and>
         lastMouseY (self s') = clientY e \<and>
         options (self s') = options (self s) \<and>
         draggedItem (self s') = draggedItem (self s) \<and>
         placeholder (self s') = placeholder (self s) \<and>
         (\<exists>pos. calls s' = calls s @
             (if (allowDuplicateCallbacks (options (self s)) \<or>
                  lastDraggedOver (self s) \<noteq> Some below \<or>
                  lastMouseDirection (self s) \<noteq>
                    Some (if clientY e < lastMouseY (self s) then Up else Down)) \<and>
                 callbacks_drag (options (self s))
              then [DragCall e (draggedItem (self s)) below pos] else []))"
  using cl nd ret
  by (auto simp: handleDragOver_def Let_def split: option.splits sum.splits if_splits)

section \<open>The loop of \<^verbatim>\<open>isDraggable\<close> without a parent selector\<close>

lemma notDisabledFrom_no_selector:
  assumes "notDisabledFrom E d cls parent current = Some r"
  shows "truthySelector parent = None \<longrightarrow> (\<exists>b. r = Inr b)"
  by (rule notDisabledFrom.raw_induct
        [where P = "\<lambda>E d cls parent current r. truthySelector parent = None \<longrightarrow> (\<exists>b. r = Inr b)",
         OF _ assms])
     (auto split: option.splits if_splits)

section \<open>The sample states are states of the program\<close>

text \<open>
  Each sample state is what the program itself reaches: construction on the sample page
  gives \<open>idle\<close>, a drag start on item 4 followed by the animation frame gives
  \<open>dragging\<close>, and a positioning tick over item 5 gives \<open>over5\<close>; the instances on
  the table, for one item, for the empty array and for the link are reached likewise.
\<close>

lemma idle_is_constructed:
  "map_option snapshot (doneState (constructor css listPage (ArgString ''li'') demoOptions marker)) =
   Some (snapshot idle)"
  by code_simp

lemma dragging_is_reached:
  "returnedOk (handleDragStart css idle \<lparr>target = 4, clientY = 3\<rparr>) \<and>
   snapshot (animationFrame (stateAfter idle (handleDragStart css idle \<lparr>target = 4, clientY = 3\<rparr>))) =
   snapshot dragging"
  by code_simp

lemma over5_is_reached:
  "returnedOk (handleDragOver css dragging \<lparr>target = 5, clientY = 10\<rparr>) \<and>
   snapshot (stateAfter dragging (handleDragOver css dragging \<lparr>target = 5, clientY = 10\<rparr>)) =
   snapshot over5"
  by code_simp

lemma tableIdle_is_constructed:
  "map_option snapshot
     (doneState (constructor css
        (tablePage\<lparr>nodes := (nodes tablePage)
           (4 := elementNode ''TBODY'' [] [] (Some 3) [],
            5 := elementNode ''TBODY'' [] [] (Some 3) [])\<rparr>)
        (ArgString ''tbody'') (demoOptions\<lparr>pickup_parent := Some ''table''\<rparr>) marker)) =
   Some (snapshot tableIdle)"
  by code_simp

lemma pluginIdle_is_constructed:
  "map_option snapshot (doneState (constructor css listPage (ArgElement 4) demoOptions marker)) =
   Some (snapshot pluginIdle)"
  by code_simp

lemma emptyIdle_is_constructed:
  "map_option snapshot (doneState (constructor css listPage (ArgArray []) demoOptions marker)) =
   Some (snapshot emptyIdle)"
  by code_simp

lemma linkIdle_is_constructed:
  "map_option snapshot
     (doneState (constructor css linkPage (ArgElement 4)
        (demoOptions\<lparr>pickup_parent := Some ''div''\<rparr>) marker)) = Some (snapshot linkIdle)"
  by code_simp

lemma linkDragging_is_reached:
  "returnedOk (handleDragStart css linkIdle \<lparr>target = 4, clientY = 3\<rparr>) \<and>
   snapshot (animationFrame (stateAfter linkIdle (handleDragStart css linkIdle \<lparr>target = 4, clientY = 3\<rparr>))) =
   snapshot linkDragging"
  by code_simp

lemma returnedOk_eq:
  "returnedOk r \<Longrightarrow> r = Some (Returned (stateAfter s r) (defaultPrevented r))"
  by (auto simp: returnedOk_def stateAfter_def defaultPrevented_def
           split: option.splits outcome.splits)

section \<open>The delegation root (claim C1)\<close>

text \<open>
  \<^verbatim>\<open>init\<close> calls \<^verbatim>\<open>bindEvents\<close> before it tags the elements, and the walk of
  \<^verbatim>\<open>getParentElement\<close> accepts an ancestor only if every element already carries the
  marker. So the walk fails at every ancestor: whenever the first element is untagged
  and no parent selector is given, \<^verbatim>\<open>getParentElement\<close> returns \<^verbatim>\<open>null\<close>.
\<close>

lemma allChildren_untagged:
  assumes "isElement d first" and "iid \<notin> set (classList (nodes d first))"
    and "allChildren d iid c (first # rest) = Some r"
  shows "r = Inr False"
  using assms
  by (auto simp: classListContains_def classListOf_def split: option.splits if_splits)

lemma commonParentFrom_untagged:
  assumes "commonParentFrom d iid c els = Some r"
  shows "(\<exists>first rest. els = first # rest \<and> isElement d first \<and>
            iid \<notin> set (classList (nodes d first))) \<longrightarrow> r = Inr None"
  by (rule commonParentFrom.raw_induct
        [where P = "\<lambda>d iid c els r. (\<exists>first rest. els = first # rest \<and> isElement d first \<and>
            iid \<notin> set (classList (nodes d first))) \<longrightarrow> r = Inr None", OF _ assms])
     (auto split: option.splits sum.splits if_splits dest: allChildren_untagged)

lemma untagged_elements_have_no_root:
  assumes "truthySelector (pickup_parent (options this)) = None"
    and "elements this = first # rest" and "isElement d first"
    and "instanceId this \<notin> set (classList (nodes d first))"
    and "getParentElement E d this Pickup = Some r"
  shows "r = Inr None"
  using assms commonParentFrom_untagged[of d "instanceId this" "parentOf d first" "elements this" r]
  by (auto simp: getParentElement_def)

text \<open>
  Claim C1 says that an instance built without a pickup parent selector, over elements
  with a common ancestor, binds its five listeners at their nearest common ancestor. On
  the sample page \<^verbatim>\<open>new DomMover('li')\<close> with the default options finds the three items,
  whose nearest common ancestor is the list (node 3), and binds no listener: the
  construction ends with \<open>listenersAt = None\<close>. Asked again after construction, when the
  items are tagged, \<^verbatim>\<open>getParentElement\<close> does answer with the list.
\<close>

theorem default_instance_binds_no_listener:
  "map_option listenersAt
     (doneState (constructor css listPage (ArgString ''li'') defaults marker)) = Some None \<and>
   map_option (elements \<circ> self)
     (doneState (constructor css listPage (ArgString ''li'') defaults marker)) = Some [4, 5, 6] \<and>
   Option.bind (doneState (constructor css listPage (ArgString ''li'') defaults marker))
     (delegationRoot css) = Some (Inr (Some 3))"
  by code_simp

section \<open>Ownership without a containment selector (claim C2)\<close>

text \<open>
  Claim C2 says that without a containment selector \<^verbatim>\<open>isWithinParent\<close> is true exactly
  for the elements that carry the instance marker, so that \<^verbatim>\<open>isDraggable\<close> rejects an
  element without it. The source returns \<^verbatim>\<open>true\<close> before it looks at the element
  (\<^verbatim>\<open>if (!parentSelector) return true\<close>). The list itself (node 3) carries no marker and
  is owned and draggable for an instance with the default options.
\<close>

theorem unmarked_element_is_owned:
  "pickup_parent (options (newInstance (ArgString ''li'') defaults marker [4, 5, 6])) = None \<and>
   \<not> List.member (classList (nodes taggedPage 3)) marker \<and>
   isWithinParent css taggedPage (newInstance (ArgString ''li'') defaults marker [4, 5, 6]) 3 Pickup =
     Some (Inr True) \<and>
   isDraggable css taggedPage (newInstance (ArgString ''li'') defaults marker [4, 5, 6]) 3 =
     Some (Inr True)"
  by code_simp

text \<open>
  Claim C2, amended: when no pickup parent selector is configured (\<^verbatim>\<open>pickup.parent\<close> is
  \<^verbatim>\<open>null\<close> or empty), \<^verbatim>\<open>isWithinParent\<close> returns \<^verbatim>\<open>true\<close> for every element, marked or
  not, and the answer of \<^verbatim>\<open>isDraggable\<close> is that of its walk for the disabled class
  alone. With a selector configured, \<^verbatim>\<open>isWithinParent\<close> returns \<^verbatim>\<open>true\<close> when the selector
  selects nothing, \<^verbatim>\<open>false\<close> when the selected element does not contain the candidate,
  and otherwise, for a candidate that is an element, whether the candidate carries the
  instance marker: the marker is tested in this last case only.
\<close>

theorem ownership_without_selector:
  "(truthySelector (pickup_parent (options this)) = None \<longrightarrow>
      isWithinParent E d this element Pickup = Some (Inr True) \<and>
      isDraggable E d this element =
        notDisabledFrom E d (pickup_disabledClass (options this)) (pickup_parent (options this))
          (Some element)) \<and>
   (truthySelector (pickup_parent (options this)) = Some sel \<longrightarrow>
      (querySelector E d sel = Some (Inr None) \<longrightarrow>
         isWithinParent E d this element Pickup = Some (Inr True)) \<and>
      (querySelector E d sel = Some (Inr (Some parentElement)) \<longrightarrow>
         (contains d parentElement element = Some False \<longrightarrow>
            isWithinParent E d this element Pickup = Some (Inr False)) \<and>
         (contains d parentElement element = Some True \<and> isElement d element \<longrightarrow>
            isWithinParent E d this element Pickup =
              Some (Inr (instanceId this \<in> set (classList (nodes d element)))))))"
proof -
  have a: "isWithinParent E d this element Pickup = Some (Inr True) \<and>
      isDraggable E d this element =
        notDisabledFrom E d (pickup_disabledClass (options this)) (pickup_parent (options this))
          (Some element)"
    if h: "truthySelector (pickup_parent (options this)) = None"
  proof -
    have w: "isWithinParent E d this element Pickup = Some (Inr True)"
      using h by (simp add: isWithinParent_def)
    show ?thesis
    proof (cases "notDisabledFrom E d (pickup_disabledClass (options this))
                    (pickup_parent (options this)) (Some element)")
      case None
      then show ?thesis using w by (simp add: isDraggable_def)
    next
      case (Some r)
      then obtain b where "r = Inr b"
        using notDisabledFrom_no_selector[OF Some] h by auto
      then show ?thesis using Some w by (simp add: isDraggable_def)
    qed
  qed
  have b: "(querySelector E d sel = Some (Inr None) \<longrightarrow>
         isWithinParent E d this element Pickup = Some (Inr True)) \<and>
      (querySelector E d sel = Some (Inr (Some parentElement)) \<longrightarrow>
         (contains d parentElement element = Some False \<longrightarrow>
            isWithinParent E d this element Pickup = Some (Inr False)) \<and>
         (contains d parentElement element = Some True \<and> isElement d element \<longrightarrow>
            isWithinParent E d this element Pickup =
              Some (Inr (instanceId this \<in> set (classList (nodes d element))))))"
    if "truthySelector (pickup_parent (options this)) = Some sel"
    using that by (simp add: isWithinParent_def classListContains_def classListOf_def)
  show ?thesis using a b by blast
qed

theorem ownership_without_selector_witness:
  "truthySelector (pickup_parent (options (newInstance (ArgString ''li'') defaults marker [4, 5, 6]))) =
     None \<and>
   isWithinParent css taggedPage (newInstance (ArgString ''li'') defaults marker [4, 5, 6]) 3 Pickup =
     Some (Inr True) \<and>
   isDraggable css taggedPage (newInstance (ArgString ''li'') defaults marker [4, 5, 6]) 3 =
     notDisabledFrom css taggedPage ''sortable-disabled'' None (Some 3) \<and>
   truthySelector (pickup_parent (options (self tableIdle))) = Some ''table'' \<and>
   querySelector css taggedPage ''table'' = Some (Inr None) \<and>
   isWithinParent css taggedPage (self tableIdle) 3 Pickup = Some (Inr True) \<and>
   truthySelector (pickup_parent (options (self pluginIdle))) = Some ''ul'' \<and>
   querySelector css (dom pluginIdle) ''ul'' = Some (Inr (Some 3)) \<and>
   contains (dom pluginIdle) 3 2 = Some False \<and>
   isWithinParent css (dom pluginIdle) (self pluginIdle) 2 Pickup = Some (Inr False) \<and>
   contains (dom pluginIdle) 3 4 = Some True \<and> isElement (dom pluginIdle) 4 \<and>
   instanceId (self pluginIdle) \<in> set (classList (nodes (dom pluginIdle) 4)) \<and>
   isWithinParent css (dom pluginIdle) (self pluginIdle) 4 Pickup = Some (Inr True) \<and>
   contains (dom pluginIdle) 3 5 = Some True \<and> isElement (dom pluginIdle) 5 \<and>
   instanceId (self pluginIdle) \<notin> set (classList (nodes (dom pluginIdle) 5)) \<and>
   isWithinParent css (dom pluginIdle) (self pluginIdle) 5 Pickup = Some (Inr False)"
proof -
  let ?plain = "newInstance (ArgString ''li'') defaults marker [4, 5, 6]"
  have h: "truthySelector (pickup_parent (options ?plain)) = None"
    "pickup_disabledClass (options ?plain) = ''sortable-disabled''"
    "pickup_parent (options ?plain) = None"
    by (simp_all add: newInstance_def defaults_def truthySelector_def)
  have t: "truthySelector (pickup_parent (options (self tableIdle))) = Some ''table''"
    "querySelector css taggedPage ''table'' = Some (Inr None)"
    by code_simp+
  have p: "truthySelector (pickup_parent (options (self pluginIdle))) = Some ''ul''"
    "querySelector css (dom pluginIdle) ''ul'' = Some (Inr (Some 3))"
    "contains (dom pluginIdle) 3 2 = Some False"
    "contains (dom pluginIdle) 3 4 = Some True" "isElement (dom pluginIdle) 4"
    "instanceId (self pluginIdle) \<in> set (classList (nodes (dom pluginIdle) 4))"
    "contains (dom pluginIdle) 3 5 = Some True" "isElement (dom pluginIdle) 5"
    "instanceId (self pluginIdle) \<notin> set (classList (nodes (dom pluginIdle) 5))"
    by code_simp+
  have "isWithinParent css taggedPage ?plain 3 Pickup = Some (Inr True) \<and>
        isDraggable css taggedPage ?plain 3 =
          notDisabledFrom css taggedPage ''sortable-disabled'' None (Some 3)"
    using ownership_without_selector[where this = ?plain and E = css and d = taggedPage
        and element = 3] h by simp
  moreover have "isWithinParent css taggedPage (self tableIdle) 3 Pickup = Some (Inr True)"
    using ownership_without_selector[where this = "self tableIdle" and sel = "''table''"
        and E = css and d = taggedPage and element = 3] t by simp
  moreover have "isWithinParent css (dom pluginIdle) (self pluginIdle) 2 Pickup = Some (Inr False)"
    using ownership_without_selector[where this = "self pluginIdle" and sel = "''ul''" and E = css
        and d = "dom pluginIdle" and parentElement = 3 and element = 2] p by simp
  moreover have "isWithinParent css (dom pluginIdle) (self pluginIdle) 4 Pickup = Some (Inr True)"
    using ownership_without_selector[where this = "self pluginIdle" and sel = "''ul''" and E = css
        and d = "dom pluginIdle" and parentElement = 3 and element = 4] p by simp
  moreover have "isWithinParent css (dom pluginIdle) (self pluginIdle) 5 Pickup = Some (Inr False)"
    using ownership_without_selector[where this = "self pluginIdle" and sel = "''ul''" and E = css
        and d = "dom pluginIdle" and parentElement = 3 and element = 5] p by simp
  ultimately show ?thesis using h t p by simp
qed

section \<open>Where a positioning tick puts the placeholder (claims C3 and C9)\<close>

lemma over5_facts:
  "closest css (dom over5) 6 (selectorText (dom over5) (self over5)) = Some (Inr (Some 6))"
  "draggedItem (self over5) \<noteq> Some 6" "placeholder (self over5) = Some 7"
  "parentOf (dom over5) 6 = Some 3" "6 \<in> set (childNodes (nodes (dom over5) 3))"
  "childrenWf (dom over5) 3" "isElement (dom over5) 3" "isElement (dom over5) 7"
  "contains (dom over5) 7 3 = Some False" "lastMouseY (self over5) = 10"
  by code_simp+

text \<open>
  Claim C3 says that on every tick over a managed element other than the dragged one and
  the placeholder, the placeholder ends up right after that element when the inferred
  direction is down. The direction is down whenever the pointer has not moved up, but
  \<^verbatim>\<open>handleDragOver\<close> moves the placeholder only under \<^verbatim>\<open>e.clientY > this.lastMouseY\<close> or
  \<^verbatim>\<open>e.clientY < this.lastMouseY\<close>. In \<open>over5\<close> the last coordinate is 10 and the
  placeholder follows item 5; a tick over item 6 at the same height infers down and
  leaves the placeholder after item 5.
\<close>

theorem tick_at_same_height_leaves_placeholder:
  "closest css (dom over5) 6 (selectorText (dom over5) (self over5)) = Some (Inr (Some 6)) \<and>
   draggedItem (self over5) = Some 4 \<and> placeholder (self over5) = Some 7 \<and>
   returnedOk (handleDragOver css over5 \<lparr>target = 6, clientY = 10\<rparr>) \<and>
   lastMouseDirection (self (stateAfter over5 (handleDragOver css over5 \<lparr>target = 6, clientY = 10\<rparr>))) =
     Some Down \<and>
   nextElementSibling (dom (stateAfter over5 (handleDragOver css over5 \<lparr>target = 6, clientY = 10\<rparr>))) 6 =
     None \<and>
   nextElementSibling (dom (stateAfter over5 (handleDragOver css over5 \<lparr>target = 6, clientY = 10\<rparr>))) 5 =
     Some 7"
  by code_simp

text \<open>
  Claim C3, amended: on a tick whose element below is neither the dragged element nor the
  placeholder, the placeholder ends up as the next element sibling of the element below
  when the pointer's coordinate is greater than the recorded one, and as its previous
  element sibling when it is smaller; when the two are equal the document is left as it
  is. The recorded direction is up exactly when the coordinate is smaller than the
  recorded one, and down otherwise. The tree is taken well formed around the element
  below: it is in the child list of its parent, that list is well formed, the parent and
  the placeholder are elements and the placeholder does not contain the parent.
\<close>

theorem dragover_places_placeholder:
  assumes "closest E (dom s) (target e) (selectorText (dom s) (self s)) = Some (Inr (Some below))"
    and "draggedItem (self s) \<noteq> Some below"
    and "placeholder (self s) = Some ph" and "ph \<noteq> below"
    and "parentOf (dom s) below = Some p" and "below \<in> set (childNodes (nodes (dom s) p))"
    and "childrenWf (dom s) p" and "isElement (dom s) p" and "isElement (dom s) ph"
    and "contains (dom s) ph p = Some False"
  shows "\<exists>s'. handleDragOver E s e = Some (Returned s' True) \<and>
           lastMouseDirection (self s') =
             Some (if clientY e < lastMouseY (self s) then Up else Down) \<and>
           lastMouseY (self s') = clientY e \<and>
           (lastMouseY (self s) < clientY e \<longrightarrow> nextElementSibling (dom s') below = Some ph) \<and>
           (clientY e < lastMouseY (self s) \<longrightarrow> previousElementSibling (dom s') below = Some ph) \<and>
           (clientY e = lastMouseY (self s) \<longrightarrow> dom s' = dom s)"
proof -
  from movePlaceholder_ok[OF assms(7) assms(5) assms(6) assms(10) assms(8) assms(9) assms(4) assms(3)]
  obtain d1 where mv: "movePlaceholder (dom s) (self s) below (clientY e) = Some (Inr d1)"
    and dn: "lastMouseY (self s) < clientY e \<longrightarrow> nextElementSibling d1 below = Some ph"
    and up: "clientY e < lastMouseY (self s) \<longrightarrow> previousElementSibling d1 below = Some ph"
    and eq: "clientY e = lastMouseY (self s) \<longrightarrow> d1 = dom s"
    by blast
  from handleDragOver_returned[OF assms(1) assms(2) assms(3) assms(4) mv]
  obtain s' where "handleDragOver E s e = Some (Returned s' True)" and "dom s' = d1"
    and "lastMouseY (self s') = clientY e"
    and "lastMouseDirection (self s') = Some (if clientY e < lastMouseY (self s) then Up else Down)"
    by blast
  then show ?thesis using dn up eq by auto
qed

theorem dragover_places_placeholder_witness:
  "closest css (dom over5) 6 (selectorText (dom over5) (self over5)) = Some (Inr (Some 6)) \<and>
   draggedItem (self over5) \<noteq> Some 6 \<and> placeholder (self over5) = Some 7 \<and>
   parentOf (dom over5) 6 = Some 3 \<and> 6 \<in> set (childNodes (nodes (dom over5) 3)) \<and>
   childrenWf (dom over5) 3 \<and> isElement (dom over5) 3 \<and> isElement (dom over5) 7 \<and>
   contains (dom over5) 7 3 = Some False \<and>
   (\<exists>s'. handleDragOver css over5 \<lparr>target = 6, clientY = 11\<rparr> = Some (Returned s' True) \<and>
         lastMouseDirection (self s') = Some Down \<and>
         nextElementSibling (dom s') 6 = Some 7) \<and>
   (\<exists>s'. handleDragOver css over5 \<lparr>target = 6, clientY = 9\<rparr> = Some (Returned s' True) \<and>
         lastMouseDirection (self s') = Some Up \<and>
         previousElementSibling (dom s') 6 = Some 7)"
proof -
  have n: "(7::nat) \<noteq> 6" by simp
  note down = dragover_places_placeholder[OF _ over5_facts(2) over5_facts(3) n over5_facts(4)
      over5_facts(5) over5_facts(6) over5_facts(7) over5_facts(8) over5_facts(9),
      of css "\<lparr>target = 6, clientY = 11\<rparr>"]
  note up = dragover_places_placeholder[OF _ over5_facts(2) over5_facts(3) n over5_facts(4)
      over5_facts(5) over5_facts(6) over5_facts(7) over5_facts(8) over5_facts(9),
      of css "\<lparr>target = 6, clientY = 9\<rparr>"]
  have "\<exists>s'. handleDragOver css over5 \<lparr>target = 6, clientY = 11\<rparr> = Some (Returned s' True) \<and>
         lastMouseDirection (self s') = Some Down \<and>
         nextElementSibling (dom s') 6 = Some 7"
    using down over5_facts(1) over5_facts(10) by auto
  moreover
  have "\<exists>s'. handleDragOver css over5 \<lparr>target = 6, clientY = 9\<rparr> = Some (Returned s' True) \<and>
         lastMouseDirection (self s') = Some Up \<and>
         previousElementSibling (dom s') 6 = Some 7"
    using up over5_facts(1) over5_facts(10) by auto
  ultimately show ?thesis using over5_facts by simp
qed

text \<open>
  Claim C9 says that two ticks in a row over the same element with the same inferred
  direction never change the document on the second. From \<open>over5\<close>, a tick over item 6 at
  the recorded height 10 infers down and moves nothing, and the next tick over item 6, at
  height 11, infers down again and calls \<^verbatim>\<open>insertBefore\<close>: the placeholder moves from
  behind item 5 to behind item 6.
\<close>

theorem second_tick_moves_placeholder:
  "closest css (dom over5) 6 (selectorText (dom over5) (self over5)) = Some (Inr (Some 6)) \<and>
   returnedOk (handleDragOver css over5 \<lparr>target = 6, clientY = 10\<rparr>) \<and>
   lastMouseDirection (self (stateAfter over5 (handleDragOver css over5 \<lparr>target = 6, clientY = 10\<rparr>))) =
     Some Down \<and>
   childNodes (nodes (dom (stateAfter over5 (handleDragOver css over5 \<lparr>target = 6, clientY = 10\<rparr>))) 3) =
     [4, 5, 7, 6] \<and>
   mutations (dom (stateAfter over5 (handleDragOver css over5 \<lparr>target = 6, clientY = 10\<rparr>))) =
     mutations (dom over5) \<and>
   closest css (dom (stateAfter over5 (handleDragOver css over5 \<lparr>target = 6, clientY = 10\<rparr>))) 6
     (selectorText (dom (stateAfter over5 (handleDragOver css over5 \<lparr>target = 6, clientY = 10\<rparr>)))
        (self (stateAfter over5 (handleDragOver css over5 \<lparr>target = 6, clientY = 10\<rparr>)))) =
     Some (Inr (Some 6)) \<and>
   returnedOk (handleDragOver css
       (stateAfter over5 (handleDragOver css over5 \<lparr>target = 6, clientY = 10\<rparr>))
       \<lparr>target = 6, clientY = 11\<rparr>) \<and>
   lastMouseDirection (self (stateAfter over5 (handleDragOver css
       (stateAfter over5 (handleDragOver css over5 \<lparr>target = 6, clientY = 10\<rparr>))
       \<lparr>target = 6, clientY = 11\<rparr>))) = Some Down \<and>
   childNodes (nodes (dom (stateAfter over5 (handleDragOver css
       (stateAfter over5 (handleDragOver css over5 \<lparr>target = 6, clientY = 10\<rparr>))
       \<lparr>target = 6, clientY = 11\<rparr>))) 3) = [4, 5, 6, 7] \<and>
   mutations (dom (stateAfter over5 (handleDragOver css
       (stateAfter over5 (handleDragOver css over5 \<lparr>target = 6, clientY = 10\<rparr>))
       \<lparr>target = 6, clientY = 11\<rparr>))) = mutations (dom over5) @ [Inserted 3 7 None]"
  by code_simp

text \<open>
  Claim C9, amended: of two ticks in a row over the same element below that infer the
  same direction, the second calls \<^verbatim>\<open>insertBefore\<close>, once, exactly when the first tick's
  coordinate was equal to the recorded one (so that the first tick moved nothing), the
  second tick's coordinate is greater than the first's, and the placeholder is not yet the
  next element sibling of the element below. In every other case, and so whenever the
  first tick's coordinate differed from the recorded one, the second tick makes no DOM
  mutation: it leaves the document, the log of its mutations included, as the first tick
  left it. (The tree is taken well formed around the element below, as for claim C3.)
\<close>

theorem repeated_tick_leaves_dom:
  assumes "closest E (dom s) (target e1) (selectorText (dom s) (self s)) = Some (Inr (Some below))"
    and "draggedItem (self s) \<noteq> Some below"
    and "placeholder (self s) = Some ph" and "ph \<noteq> below"
    and "parentOf (dom s) below = Some p" and "below \<in> set (childNodes (nodes (dom s) p))"
    and "childrenWf (dom s) p" and "isElement (dom s) p" and "isElement (dom s) ph"
    and "contains (dom s) ph p = Some False"
    and same: "(clientY e2 < clientY e1) = (clientY e1 < lastMouseY (self s))"
  shows "\<exists>s1. handleDragOver E s e1 = Some (Returned s1 True) \<and>
           (closest E (dom s1) (target e2) (selectorText (dom s1) (self s1)) =
              Some (Inr (Some below)) \<longrightarrow>
            (\<exists>s2. handleDragOver E s1 e2 = Some (Returned s2 True) \<and>
               (if clientY e1 = lastMouseY (self s) \<and> clientY e1 < clientY e2 \<and>
                   nextElementSibling (dom s) below \<noteq> Some ph
                then mutations (dom s2) =
                       mutations (dom s1) @ [Inserted p ph (nextSibling (dom s) below)]
                else dom s2 = dom s1 \<and> mutations (dom s2) = mutations (dom s1))))"
proof -
  from movePlaceholder_ok[OF assms(7) assms(5) assms(6) assms(10) assms(8) assms(9) assms(4) assms(3)]
  obtain d1 where mv: "movePlaceholder (dom s) (self s) below (clientY e1) = Some (Inr d1)"
    and dn: "lastMouseY (self s) < clientY e1 \<longrightarrow> nextElementSibling d1 below = Some ph"
    and up: "clientY e1 < lastMouseY (self s) \<longrightarrow> previousElementSibling d1 below = Some ph"
    and eq: "clientY e1 = lastMouseY (self s) \<longrightarrow> d1 = dom s"
    by blast
  from handleDragOver_returned[OF assms(1) assms(2) assms(3) assms(4) mv]
  obtain s1 where t1: "handleDragOver E s e1 = Some (Returned s1 True)" and d: "dom s1 = d1"
    and y: "lastMouseY (self s1) = clientY e1"
    and ph1: "placeholder (self s1) = Some ph"
    and di: "draggedItem (self s1) = draggedItem (self s)"
    by blast
  have nd1: "draggedItem (self s1) \<noteq> Some below" using di assms(2) by simp
  have "\<exists>s2. handleDragOver E s1 e2 = Some (Returned s2 True) \<and>
               (if clientY e1 = lastMouseY (self s) \<and> clientY e1 < clientY e2 \<and>
                   nextElementSibling (dom s) below \<noteq> Some ph
                then mutations (dom s2) =
                       mutations (dom s1) @ [Inserted p ph (nextSibling (dom s) below)]
                else dom s2 = dom s1 \<and> mutations (dom s2) = mutations (dom s1))"
    if c2: "closest E (dom s1) (target e2) (selectorText (dom s1) (self s1)) = Some (Inr (Some below))"
  proof (cases "clientY e1 = lastMouseY (self s)")
    case False
    have "movePlaceholder (dom s1) (self s1) below (clientY e2) = Some (Inr (dom s1))"
      using dn up False same d y ph1 by (auto simp: movePlaceholder_def)
    from handleDragOver_returned[OF c2 nd1 ph1 assms(4) this]
    show ?thesis using False by auto
  next
    case True
    then have ds: "dom s1 = dom s" using eq d by simp
    have ge: "\<not> clientY e2 < clientY e1" using same True by simp
    have "movePlaceholder (dom s) (self s1) below (clientY e2) =
            Some (Inr (if clientY e1 < clientY e2 \<and> nextElementSibling (dom s) below \<noteq> Some ph
                       then inserted (dom s) p ph (nextSibling (dom s) below) else dom s))"
      using movePlaceholder_moves[OF assms(7) assms(5) assms(6) assms(10) assms(8) assms(9)
              assms(4) ph1, of "clientY e2"] y ge
      by simp
    then have m2: "movePlaceholder (dom s1) (self s1) below (clientY e2) =
            Some (Inr (if clientY e1 < clientY e2 \<and> nextElementSibling (dom s) below \<noteq> Some ph
                       then inserted (dom s) p ph (nextSibling (dom s) below) else dom s))"
      using ds by simp
    from handleDragOver_returned[OF c2 nd1 ph1 assms(4) m2]
    show ?thesis using True ds by (auto simp: inserted_mutations)
  qed
  then show ?thesis using t1 by blast
qed

theorem repeated_tick_leaves_dom_witness:
  "closest css (dom over5) 6 (selectorText (dom over5) (self over5)) = Some (Inr (Some 6)) \<and>
   draggedItem (self over5) \<noteq> Some 6 \<and> placeholder (self over5) = Some 7 \<and>
   parentOf (dom over5) 6 = Some 3 \<and> 6 \<in> set (childNodes (nodes (dom over5) 3)) \<and>
   childrenWf (dom over5) 3 \<and> isElement (dom over5) 3 \<and> isElement (dom over5) 7 \<and>
   contains (dom over5) 7 3 = Some False \<and> lastMouseY (self over5) = 10 \<and>
   nextElementSibling (dom over5) 6 \<noteq> Some 7 \<and> nextSibling (dom over5) 6 = None \<and>
   closest css (dom (stateAfter over5 (handleDragOver css over5 \<lparr>target = 6, clientY = 11\<rparr>))) 6
     (selectorText (dom (stateAfter over5 (handleDragOver css over5 \<lparr>target = 6, clientY = 11\<rparr>)))
        (self (stateAfter over5 (handleDragOver css over5 \<lparr>target = 6, clientY = 11\<rparr>)))) =
     Some (Inr (Some 6)) \<and>
   (\<exists>s1 s2. handleDragOver css over5 \<lparr>target = 6, clientY = 11\<rparr> = Some (Returned s1 True) \<and>
        handleDragOver css s1 \<lparr>target = 6, clientY = 12\<rparr> = Some (Returned s2 True) \<and>
        dom s2 = dom s1 \<and> mutations (dom s2) = mutations (dom s1)) \<and>
   closest css (dom (stateAfter over5 (handleDragOver css over5 \<lparr>target = 6, clientY = 10\<rparr>))) 6
     (selectorText (dom (stateAfter over5 (handleDragOver css over5 \<lparr>target = 6, clientY = 10\<rparr>)))
        (self (stateAfter over5 (handleDragOver css over5 \<lparr>target = 6, clientY = 10\<rparr>)))) =
     Some (Inr (Some 6)) \<and>
   (\<exists>s1 s2. handleDragOver css over5 \<lparr>target = 6, clientY = 10\<rparr> = Some (Returned s1 True) \<and>
        handleDragOver css s1 \<lparr>target = 6, clientY = 12\<rparr> = Some (Returned s2 True) \<and>
        mutations (dom s2) = mutations (dom s1) @ [Inserted 3 7 None])"
proof -
  let ?a = "\<lparr>target = 6, clientY = 11\<rparr>" and ?b = "\<lparr>target = 6, clientY = 12\<rparr>"
    and ?c = "\<lparr>target = 6, clientY = 10\<rparr>"
  have n: "(7::nat) \<noteq> 6" by simp
  have f: "nextElementSibling (dom over5) 6 \<noteq> Some 7" "nextSibling (dom over5) 6 = None"
    by code_simp+
  have ca: "closest css (dom (stateAfter over5 (handleDragOver css over5 ?a))) 6
     (selectorText (dom (stateAfter over5 (handleDragOver css over5 ?a)))
        (self (stateAfter over5 (handleDragOver css over5 ?a)))) = Some (Inr (Some 6))"
    by code_simp
  have cc: "closest css (dom (stateAfter over5 (handleDragOver css over5 ?c))) 6
     (selectorText (dom (stateAfter over5 (handleDragOver css over5 ?c)))
        (self (stateAfter over5 (handleDragOver css over5 ?c)))) = Some (Inr (Some 6))"
    by code_simp
  note tick2 = repeated_tick_leaves_dom[OF _ over5_facts(2) over5_facts(3) n over5_facts(4)
      over5_facts(5) over5_facts(6) over5_facts(7) over5_facts(8) over5_facts(9)]
  have "\<exists>s1. handleDragOver css over5 ?a = Some (Returned s1 True) \<and>
           (closest css (dom s1) 6 (selectorText (dom s1) (self s1)) = Some (Inr (Some 6)) \<longrightarrow>
            (\<exists>s2. handleDragOver css s1 ?b = Some (Returned s2 True) \<and>
                  dom s2 = dom s1 \<and> mutations (dom s2) = mutations (dom s1)))"
    using tick2[of css ?a ?b] over5_facts(1) over5_facts(10) by simp
  then obtain s1 where s1: "handleDragOver css over5 ?a = Some (Returned s1 True)"
    and imp: "closest css (dom s1) 6 (selectorText (dom s1) (self s1)) = Some (Inr (Some 6)) \<longrightarrow>
            (\<exists>s2. handleDragOver css s1 ?b = Some (Returned s2 True) \<and>
                  dom s2 = dom s1 \<and> mutations (dom s2) = mutations (dom s1))"
    by auto
  have "stateAfter over5 (handleDragOver css over5 ?a) = s1"
    using s1 by (simp add: stateAfter_def)
  then have "closest css (dom s1) 6 (selectorText (dom s1) (self s1)) = Some (Inr (Some 6))"
    using ca by simp
  then have A: "\<exists>s1 s2. handleDragOver css over5 ?a = Some (Returned s1 True) \<and>
        handleDragOver css s1 ?b = Some (Returned s2 True) \<and>
        dom s2 = dom s1 \<and> mutations (dom s2) = mutations (dom s1)"
    using imp s1 by auto
  have "\<exists>s1. handleDragOver css over5 ?c = Some (Returned s1 True) \<and>
           (closest css (dom s1) 6 (selectorText (dom s1) (self s1)) = Some (Inr (Some 6)) \<longrightarrow>
            (\<exists>s2. handleDragOver css s1 ?b = Some (Returned s2 True) \<and>
                  mutations (dom s2) = mutations (dom s1) @ [Inserted 3 7 None]))"
    using tick2[of css ?c ?b] over5_facts(1) over5_facts(10) f by simp
  then obtain s3 where s3: "handleDragOver css over5 ?c = Some (Returned s3 True)"
    and imp3: "closest css (dom s3) 6 (selectorText (dom s3) (self s3)) = Some (Inr (Some 6)) \<longrightarrow>
            (\<exists>s2. handleDragOver css s3 ?b = Some (Returned s2 True) \<and>
                  mutations (dom s2) = mutations (dom s3) @ [Inserted 3 7 None])"
    by auto
  have "stateAfter over5 (handleDragOver css over5 ?c) = s3"
    using s3 by (simp add: stateAfter_def)
  then have "closest css (dom s3) 6 (selectorText (dom s3) (self s3)) = Some (Inr (Some 6))"
    using cc by simp
  then have B: "\<exists>s1 s2. handleDragOver css over5 ?c = Some (Returned s1 True) \<and>
        handleDragOver css s1 ?b = Some (Returned s2 True) \<and>
        mutations (dom s2) = mutations (dom s1) @ [Inserted 3 7 None]"
    using imp3 s3 by auto
  show ?thesis using A B ca cc f over5_facts by simp
qed

section \<open>Dispatch of the drag callback (claim C4)\<close>

lemma dragging_facts:
  "closest css (dom dragging) 5 (selectorText (dom dragging) (self dragging)) = Some (Inr (Some 5))"
  "draggedItem (self dragging) \<noteq> Some 5" "placeholder (self dragging) \<noteq> Some 5"
  "returnedOk (handleDragOver css dragging \<lparr>target = 5, clientY = 10\<rparr>)"
  "closest css (dom (stateAfter dragging (handleDragOver css dragging \<lparr>target = 5, clientY = 10\<rparr>))) 5
     (selectorText (dom (stateAfter dragging (handleDragOver css dragging \<lparr>target = 5, clientY = 10\<rparr>)))
        (self (stateAfter dragging (handleDragOver css dragging \<lparr>target = 5, clientY = 10\<rparr>)))) =
     Some (Inr (Some 5))"
  "returnedOk (handleDragOver css
     (stateAfter dragging (handleDragOver css dragging \<lparr>target = 5, clientY = 10\<rparr>))
     \<lparr>target = 5, clientY = 12\<rparr>)"
  "lastMouseY (self dragging) = 0" "\<not> allowDuplicateCallbacks (options (self dragging))"
  "callbacks_drag (options (self dragging))" "lastDraggedOver (self dragging) = None"
  "draggedItem (self dragging) = Some 4" "calls dragging = [pickedUp]"
  by code_simp+

text \<open>
  Claim C4 says that with \<^verbatim>\<open>allowDuplicateCallbacks = false\<close> every two ticks in a row
  over the same element with the same inferred direction dispatch the drag callback
  exactly once, on the first. The first of the two is itself suppressed when it repeats
  the tick before it: in \<open>over5\<close> the stored element is item 5 and the stored direction
  down, and two further ticks over item 5, both inferring down, dispatch nothing at all
  although a drag callback is configured.
\<close>

theorem third_tick_pair_dispatches_nothing:
  "\<not> allowDuplicateCallbacks (options (self over5)) \<and> callbacks_drag (options (self over5)) \<and>
   closest css (dom over5) 5 (selectorText (dom over5) (self over5)) = Some (Inr (Some 5)) \<and>
   returnedOk (handleDragOver css over5 \<lparr>target = 5, clientY = 12\<rparr>) \<and>
   lastMouseDirection (self (stateAfter over5 (handleDragOver css over5 \<lparr>target = 5, clientY = 12\<rparr>))) =
     Some Down \<and>
   calls (stateAfter over5 (handleDragOver css over5 \<lparr>target = 5, clientY = 12\<rparr>)) = calls over5 \<and>
   closest css (dom (stateAfter over5 (handleDragOver css over5 \<lparr>target = 5, clientY = 12\<rparr>))) 5
     (selectorText (dom (stateAfter over5 (handleDragOver css over5 \<lparr>target = 5, clientY = 12\<rparr>)))
        (self (stateAfter over5 (handleDragOver css over5 \<lparr>target = 5, clientY = 12\<rparr>)))) =
     Some (Inr (Some 5)) \<and>
   returnedOk (handleDragOver css
       (stateAfter over5 (handleDragOver css over5 \<lparr>target = 5, clientY = 12\<rparr>))
       \<lparr>target = 5, clientY = 14\<rparr>) \<and>
   lastMouseDirection (self (stateAfter over5 (handleDragOver css
       (stateAfter over5 (handleDragOver css over5 \<lparr>target = 5, clientY = 12\<rparr>))
       \<lparr>target = 5, clientY = 14\<rparr>))) = Some Down \<and>
   calls (stateAfter over5 (handleDragOver css
       (stateAfter over5 (handleDragOver css over5 \<lparr>target = 5, clientY = 12\<rparr>))
       \<lparr>target = 5, clientY = 14\<rparr>)) = calls over5"
  by code_simp

text \<open>
  Claim C4, amended: of two ticks in a row that resolve the same element below and infer
  the same direction, the second never dispatches the drag callback when
  \<^verbatim>\<open>allowDuplicateCallbacks\<close> is false, so the two dispatch at most once; the first
  dispatches once, with the event, the dragged element, the element below and the
  placeholder position, exactly when a drag callback is configured and either
  \<^verbatim>\<open>allowDuplicateCallbacks\<close> is set, or the element below differs from the one stored
  by the tick before, or the inferred direction differs from the stored one. The stored
  values are those the previous tick left.
\<close>

theorem drag_callback_suppression:
  assumes "closest E (dom s) (target e1) (selectorText (dom s) (self s)) = Some (Inr (Some below))"
    and "draggedItem (self s) \<noteq> Some below" and "placeholder (self s) \<noteq> Some below"
    and "handleDragOver E s e1 = Some (Returned s1 p1)"
    and "closest E (dom s1) (target e2) (selectorText (dom s1) (self s1)) = Some (Inr (Some below))"
    and "handleDragOver E s1 e2 = Some (Returned s2 p2)"
    and same: "(clientY e2 < clientY e1) = (clientY e1 < lastMouseY (self s))"
  shows "(\<not> allowDuplicateCallbacks (options (self s)) \<longrightarrow> calls s2 = calls s1) \<and>
         (\<exists>pos. calls s1 = calls s @
            (if callbacks_drag (options (self s)) \<and>
                (allowDuplicateCallbacks (options (self s)) \<or>
                 lastDraggedOver (self s) \<noteq> Some below \<or>
                 lastMouseDirection (self s) \<noteq>
                   Some (if clientY e1 < lastMouseY (self s) then Up else Down))
             then [DragCall e1 (draggedItem (self s)) below pos] else []))"
proof -
  note c1 = handleDragOver_calls[OF assms(1) assms(2) assms(3) assms(4)]
  have nd2: "draggedItem (self s1) \<noteq> Some below" "placeholder (self s1) \<noteq> Some below"
    using c1 assms(2,3) by auto
  note c2 = handleDragOver_calls[OF assms(5) nd2 assms(6)]
  have "calls s2 = calls s1" if "\<not> allowDuplicateCallbacks (options (self s))"
    using c1 c2 that same by auto
  moreover have "\<exists>pos. calls s1 = calls s @
            (if callbacks_drag (options (self s)) \<and>
                (allowDuplicateCallbacks (options (self s)) \<or>
                 lastDraggedOver (self s) \<noteq> Some below \<or>
                 lastMouseDirection (self s) \<noteq>
                   Some (if clientY e1 < lastMouseY (self s) then Up else Down))
             then [DragCall e1 (draggedItem (self s)) below pos] else [])"
    using c1 by (auto simp: conj_commute)
  ultimately show ?thesis by blast
qed

theorem drag_callback_suppression_witness:
  "closest css (dom dragging) 5 (selectorText (dom dragging) (self dragging)) = Some (Inr (Some 5)) \<and>
   draggedItem (self dragging) \<noteq> Some 5 \<and> placeholder (self dragging) \<noteq> Some 5 \<and>
   \<not> allowDuplicateCallbacks (options (self dragging)) \<and>
   (\<exists>s1 s2 pos.
      handleDragOver css dragging \<lparr>target = 5, clientY = 10\<rparr> = Some (Returned s1 True) \<and>
      closest css (dom s1) 5 (selectorText (dom s1) (self s1)) = Some (Inr (Some 5)) \<and>
      handleDragOver css s1 \<lparr>target = 5, clientY = 12\<rparr> = Some (Returned s2 True) \<and>
      calls s1 = [pickedUp, DragCall \<lparr>target = 5, clientY = 10\<rparr> (Some 4) 5 pos] \<and>
      calls s2 = calls s1)"
proof -
  let ?e1 = "\<lparr>target = 5, clientY = 10\<rparr>" and ?e2 = "\<lparr>target = 5, clientY = 12\<rparr>"
  let ?r1 = "handleDragOver css dragging ?e1"
  let ?s1 = "stateAfter dragging ?r1"
  let ?r2 = "handleDragOver css ?s1 ?e2"
  let ?s2 = "stateAfter ?s1 ?r2"
  have p1: "defaultPrevented ?r1" and p2: "defaultPrevented ?r2" by code_simp+
  have t1: "?r1 = Some (Returned ?s1 True)"
    using returnedOk_eq[OF dragging_facts(4), of dragging] p1 by simp
  have t2: "?r2 = Some (Returned ?s2 True)"
    using returnedOk_eq[OF dragging_facts(6), of ?s1] p2 by simp
  have same: "(clientY ?e2 < clientY ?e1) = (clientY ?e1 < lastMouseY (self dragging))"
    using dragging_facts(7) by simp
  from drag_callback_suppression[OF _ dragging_facts(2) dragging_facts(3) t1 _ t2 same]
  have "calls ?s2 = calls ?s1 \<and>
        (\<exists>pos. calls ?s1 = [pickedUp, DragCall ?e1 (Some 4) 5 pos])"
    using dragging_facts by simp
  then show ?thesis using t1 t2 dragging_facts by auto
qed

section \<open>The drop (claim C5)\<close>

text \<open>
  With the placeholder in a well formed child list, \<^verbatim>\<open>handleDrop\<close> does what claim C5
  says: a \<^verbatim>\<open>beforeDrop\<close> that answers \<^verbatim>\<open>false\<close> ends the drop with the document and
  the instance untouched and no \<^verbatim>\<open>drop\<close> callback, and any other answer puts the
  dragged element right before the placeholder and calls \<^verbatim>\<open>drop\<close> with the arguments
  of \<^verbatim>\<open>beforeDrop\<close>.
\<close>

lemma drop_moves_unless_vetoed:
  assumes "draggedItem (self s) = Some item" and "placeholder (self s) = Some ph"
    and "parentOf (dom s) ph = Some p" and "ph \<in> set (childNodes (nodes (dom s) p))"
    and "childrenWf (dom s) p" and "isElement (dom s) p" and "isElement (dom s) item"
    and "item \<noteq> ph" and "contains (dom s) item p = Some False"
  shows "\<exists>s'. handleDrop s e = Some (Returned s' True) \<and>
           (let prevElem = previousElementSibling (dom s) ph;
                nextElem = nextElementSibling (dom s) ph;
                itemData = draggedItemData (self s);
                beforeElementData = map_option (getItemData (dom s) (options (self s))) prevElem
            in if vetoed s item ph
               then dom s' = dom s \<and> self s' = self s \<and>
                    calls s' = calls s @
                      [BeforeDropCall item prevElem itemData beforeElementData nextElem]
               else nextSibling (dom s') item = Some ph \<and> parentOf (dom s') item = Some p \<and>
                    calls s' = calls s @
                      (if callbacks_beforeDrop (options (self s)) = None then []
                       else [BeforeDropCall item prevElem itemData beforeElementData nextElem]) @
                      (if callbacks_drop (options (self s))
                       then [DropCall item prevElem itemData beforeElementData nextElem]
                       else []))"
proof (cases "vetoed s item ph")
  case True
  then show ?thesis using assms(1,2)
    by (auto simp: handleDrop_def vetoed_def Let_def split: option.splits)
next
  case False
  from insert_dragged_before[OF assms(5) assms(4) assms(9) assms(6) assms(7) assms(8)]
  obtain d' where ins: "insertBefore (dom s) p (Some item) (Some ph) = Some (Inr d')"
    and nx: "nextSibling d' item = Some ph" and pa: "parentOf d' item = Some p" by blast
  show ?thesis using False assms(1,2,3) ins nx pa
    by (auto simp: handleDrop_def vetoed_def Let_def split: option.splits)
qed

text \<open>
  Claim C5 says that on every drop with an active dragged item whose \<^verbatim>\<open>beforeDrop\<close>
  callback does not return \<^verbatim>\<open>false\<close>, the dragged element is moved right before the
  placeholder and the \<^verbatim>\<open>drop\<close> callback is called. \<^verbatim>\<open>handleDrop\<close> reads
  \<^verbatim>\<open>this.placeholder.parentNode.insertBefore\<close> without the test that \<^verbatim>\<open>handleDragEnd\<close>
  makes (\<^verbatim>\<open>this.placeholder && this.placeholder.parentNode\<close>). In \<open>dragging\<close> the
  placeholder has not been inserted yet, as when the pointer is released over the dragged
  item itself: \<^verbatim>\<open>beforeDrop\<close> returns \<^verbatim>\<open>undefined\<close>, the handler throws a TypeError,
  the item is not moved and \<^verbatim>\<open>drop\<close> is not called.
\<close>

theorem drop_on_detached_placeholder_throws:
  "draggedItem (self dragging) = Some 4 \<and> placeholder (self dragging) = Some 7 \<and>
   parentOf (dom dragging) 7 = None \<and>
   callbacks_beforeDrop (options (self dragging)) = Some allowDrop \<and>
   allowDrop 4 None (Some [(''id'', None), (''sort'', None)]) None None = JUndefined \<and>
   threw (handleDrop dragging \<lparr>target = 4, clientY = 12\<rparr>) = Some TypeError \<and>
   calls (stateAfter dragging (handleDrop dragging \<lparr>target = 4, clientY = 12\<rparr>)) =
     [pickedUp, BeforeDropCall 4 None (Some [(''id'', None), (''sort'', None)]) None None] \<and>
   snapshot ((stateAfter dragging (handleDrop dragging \<lparr>target = 4, clientY = 12\<rparr>))
               \<lparr>calls := calls dragging\<rparr>) = snapshot dragging"
  apply (simp add: dragging_def idle_def newInstance_def demoOptions_def)
  apply code_simp
  done

section \<open>Rejected pickups and the end of a gesture (claims C6, C7 and C8)\<close>

text \<open>
  Claim C6 says that a pickup of a \<^verbatim>\<open>TBODY\<close> (or another tag that cannot be sorted) is
  cancelled and leaves no gesture state. \<^verbatim>\<open>handleDragStart\<close> assigns
  \<^verbatim>\<open>this.draggedItem\<close> and \<^verbatim>\<open>this.tagNameCopy\<close> before it tests the tag and returns
  without clearing them. On the sample table the pickup of body 4 is cancelled, makes no
  placeholder and calls no callback, and leaves \<open>draggedItem = Some 4\<close>; a drop event that
  reaches the table afterwards passes the test \<^verbatim>\<open>!this.draggedItem\<close> and throws on the
  missing placeholder.
\<close>

theorem rejected_pickup_keeps_dragged_item:
  "tagName (nodes (dom tableIdle) 4) = ''TBODY'' \<and>
   isDraggable css (dom tableIdle) (self tableIdle) 4 = Some (Inr True) \<and>
   returnedOk (handleDragStart css tableIdle \<lparr>target = 4, clientY = 3\<rparr>) \<and>
   defaultPrevented (handleDragStart css tableIdle \<lparr>target = 4, clientY = 3\<rparr>) \<and>
   placeholder (self (stateAfter tableIdle (handleDragStart css tableIdle \<lparr>target = 4, clientY = 3\<rparr>))) =
     None \<and>
   calls (stateAfter tableIdle (handleDragStart css tableIdle \<lparr>target = 4, clientY = 3\<rparr>)) = [] \<and>
   draggedItem (self (stateAfter tableIdle (handleDragStart css tableIdle \<lparr>target = 4, clientY = 3\<rparr>))) =
     Some 4 \<and>
   tagNameCopy (self (stateAfter tableIdle (handleDragStart css tableIdle \<lparr>target = 4, clientY = 3\<rparr>))) =
     Some ''TBODY'' \<and>
   threw (handleDrop
            (stateAfter tableIdle (handleDragStart css tableIdle \<lparr>target = 4, clientY = 3\<rparr>))
            \<lparr>target = 5, clientY = 8\<rparr>) = Some TypeError"
  by code_simp

text \<open>
  Claim C7 says that \<^verbatim>\<open>handleDragEnd\<close> clears every field of the gesture, the last
  pointer coordinate among them. It removes the pickup class, detaches the placeholder
  and resets six fields, and leaves \<^verbatim>\<open>lastMouseY\<close> as the last tick set it: after the
  drag end of \<open>over5\<close> it is still 10, where a new instance has 0.
\<close>

theorem drag_end_keeps_last_pointer_height:
  "lastMouseY (self over5) = 10 \<and>
   returnedOk (Some (handleDragEnd over5 \<lparr>target = 4, clientY = 10\<rparr>)) \<and>
   draggedItem (self (stateAfter over5 (Some (handleDragEnd over5 \<lparr>target = 4, clientY = 10\<rparr>)))) = None \<and>
   draggedItemData (self (stateAfter over5 (Some (handleDragEnd over5 \<lparr>target = 4, clientY = 10\<rparr>)))) = None \<and>
   placeholder (self (stateAfter over5 (Some (handleDragEnd over5 \<lparr>target = 4, clientY = 10\<rparr>)))) = None \<and>
   lastDraggedOver (self (stateAfter over5 (Some (handleDragEnd over5 \<lparr>target = 4, clientY = 10\<rparr>)))) = None \<and>
   lastMouseDirection (self (stateAfter over5 (Some (handleDragEnd over5 \<lparr>target = 4, clientY = 10\<rparr>)))) = None \<and>
   childNodes (nodes (dom (stateAfter over5 (Some (handleDragEnd over5 \<lparr>target = 4, clientY = 10\<rparr>)))) 3) =
     [4, 5, 6] \<and>
   classList (nodes (dom (stateAfter over5 (Some (handleDragEnd over5 \<lparr>target = 4, clientY = 10\<rparr>)))) 4) =
     [marker] \<and>
   lastMouseY (self (stateAfter over5 (Some (handleDragEnd over5 \<lparr>target = 4, clientY = 10\<rparr>)))) = 10 \<and>
   lastMouseY (self idle) = 0"
  by code_simp

text \<open>
  Claim C8 says that no handler throws, a drag end without a gesture in particular.
  A drop without a dragged item does return and changes nothing. A drag end without one
  calls \<^verbatim>\<open>removeClasses(null, 'sortable-dragging')\<close> and throws a TypeError: in
  \<open>idle\<close>, when the drag of something else than a managed item ends over the list.
\<close>

theorem drag_end_without_gesture_throws:
  "draggedItem (self idle) = None \<and> placeholder (self idle) = None \<and>
   threw (Some (handleDragEnd idle \<lparr>target = 3, clientY = 20\<rparr>)) = Some TypeError \<and>
   returnedOk (handleDrop idle \<lparr>target = 3, clientY = 20\<rparr>) \<and>
   snapshot (stateAfter idle (handleDrop idle \<lparr>target = 3, clientY = 20\<rparr>)) = snapshot idle"
  by code_simp

section \<open>The selector of the positioning tick (claim C10)\<close>


















end
